theory Spec2Isabelle
  imports Main "HOL-Library.Sublist" "HOL-Library.Multiset"
begin

section \<open>Data model of \<open>deployment/tasks/run-simulation.ts\<close>\<close>

text \<open>
  JavaScript numbers that hold round ids, epoch ids and timestamps are modelled as
  \<open>int\<close>; addresses, private keys and event names are strings.
\<close>

record Account =
  address :: string
  privateKey :: string

text \<open>\<open>interface RegisteredAccount\<close>: the four role accounts of one voter.\<close>

record RegisteredAccount =
  submit :: Account
  submitSignatures :: Account
  signingPolicy :: Account
  identity :: Account

text \<open>
  \<open>class EventStore\<close>: \<open>initializedVotingRound\<close> starts at 0 and
  \<open>rewardEpochEvents\<close> is a \<open>Map<number, string[]>\<close>, empty at first.
\<close>

record EventStore =
  initializedVotingRound :: int
  rewardEpochEvents :: "int \<rightharpoonup> string list"

definition newEventStore :: EventStore where
  "newEventStore = \<lparr>initializedVotingRound = 0, rewardEpochEvents = Map.empty\<rparr>"

text \<open>The object literal that \<open>extractSigningPolicy\<close> returns (an \<open>ISigningPolicy\<close>).\<close>

record ISigningPolicy =
  rewardEpochId :: int
  startVotingRoundId :: int
  threshold :: int
  seed :: string
  voters :: "string list"
  weights :: "int list"

text \<open>
  A decoded log: its event name and its arguments. The source types both as \<open>any\<close>;
  the fields below are the ones this file reads (\<open>log.event\<close>, the six arguments of
  \<open>SigningPolicyInitialized\<close>, and \<open>thresholdReached\<close> of \<open>SigningPolicySigned\<close>).
\<close>

record LogArgs =
  argRewardEpochId :: int
  argStartVotingRoundId :: int
  argThreshold :: int
  argSeed :: nat
  argVoters :: "string list"
  argWeights :: "int list"
  thresholdReached :: bool

record LogEntry =
  event :: string
  args :: LogArgs

text \<open>
  The class \<open>EpochSettings\<close> is imported from \<open>../utils/EpochSettings\<close>; this file only
  calls it. The members it calls are the fields of this record, so every statement
  below holds for whatever these methods compute.
\<close>

record EpochSettings =
  votingEpochForTime :: "int \<Rightarrow> int"
  rewardEpochForTime :: "int \<Rightarrow> int"
  votingEpochStartMs :: "int \<Rightarrow> int"
  votingEpochDurationSec :: int

section \<open>\<open>extractSigningPolicy\<close>\<close>

definition hexDigit :: "nat \<Rightarrow> char" where
  "hexDigit d = ''0123456789abcdef'' ! d"

fun toHex :: "nat \<Rightarrow> string" where
  "toHex n = (if n < 16 then [hexDigit n] else toHex (n div 16) @ [hexDigit (n mod 16)])"

text \<open>
  \<open>toBN(x).toString("hex", 64)\<close>: the hexadecimal digits, zero-padded on the left until
  the length is a multiple of 64.
\<close>

definition toStringHex64 :: "nat \<Rightarrow> string" where
  "toStringHex64 n =
     (let out = toHex n in replicate ((64 - length out mod 64) mod 64) (CHR ''0'') @ out)"

definition extractSigningPolicy :: "LogArgs \<Rightarrow> ISigningPolicy" where
  "extractSigningPolicy logArg =
     \<lparr>rewardEpochId = argRewardEpochId logArg,
      startVotingRoundId = argStartVotingRoundId logArg,
      threshold = argThreshold logArg,
      seed = ''0x'' @ toStringHex64 (argSeed logArg),
      voters = argVoters logArg,
      weights = argWeights logArg\<rparr>"

section \<open>The ledger watcher: \<open>processLog\<close>\<close>

text \<open>
  \<open>processLog\<close> is a closure over \<open>epochSettings\<close> and the \<open>signingPolicies\<close> map and
  mutates the \<open>EventStore\<close> it is given. The model passes the store and the policy
  map in and returns both. The \<open>logger.info\<close> lines write no state and are left out.

  Lines 373 to 375 (read the epoch's list or start an empty one, push the name, store
  the list back) are \<open>recordEvent\<close>; the test \<open>get(id)?.includes(name)\<close> that the
  drivers poll is \<open>hasEvent\<close>.
\<close>

definition recordEvent :: "(int \<rightharpoonup> string list) \<Rightarrow> int \<Rightarrow> string \<Rightarrow> (int \<rightharpoonup> string list)" where
  "recordEvent m rewardEpoch name =
     (let existing = (case m rewardEpoch of None \<Rightarrow> [] | Some l \<Rightarrow> l)
      in m(rewardEpoch \<mapsto> existing @ [name]))"

definition hasEvent :: "(int \<rightharpoonup> string list) \<Rightarrow> int \<Rightarrow> string \<Rightarrow> bool" where
  "hasEvent m rewardEpoch name =
     (case m rewardEpoch of None \<Rightarrow> False | Some l \<Rightarrow> name \<in> set l)"

definition processLog ::
  "EpochSettings \<Rightarrow> LogEntry \<Rightarrow> int \<Rightarrow> EventStore \<times> (int \<rightharpoonup> ISigningPolicy)
     \<Rightarrow> EventStore \<times> (int \<rightharpoonup> ISigningPolicy)" where
  "processLog epochSettings log timestamp st =
     (let events = fst st; signingPolicies = snd st in
      if event log = ''NewVotingRoundInitiated'' then
        (let votingRoundId = votingEpochForTime epochSettings (timestamp * 1000) in
         if votingRoundId > initializedVotingRound events
         then (events\<lparr>initializedVotingRound := votingRoundId\<rparr>, signingPolicies)
         else (events, signingPolicies))
      else
        (let rewardEpoch = rewardEpochForTime epochSettings (timestamp * 1000);
             events' = events\<lparr>rewardEpochEvents :=
                          recordEvent (rewardEpochEvents events) rewardEpoch (event log)\<rparr>
         in if event log = ''SigningPolicyInitialized'' then
              (let policy = extractSigningPolicy (args log)
               in (events', signingPolicies(rewardEpochId policy \<mapsto> policy)))
            else (events', signingPolicies)))"

text \<open>
  The watcher's \<open>for (const log of ...) await processLog(log, blockTimestamp, events)\<close>,
  over any sequence of logs with their block timestamps.
\<close>

fun processLogs ::
  "EpochSettings \<Rightarrow> (LogEntry \<times> int) list \<Rightarrow> EventStore \<times> (int \<rightharpoonup> ISigningPolicy)
     \<Rightarrow> EventStore \<times> (int \<rightharpoonup> ISigningPolicy)" where
  "processLogs epochSettings [] st = st"
| "processLogs epochSettings ((log, timestamp) # rest) st =
     processLogs epochSettings rest (processLog epochSettings log timestamp st)"

section \<open>The environment of the drivers\<close>

text \<open>
  The drivers are \<open>async\<close> functions: at every \<open>await\<close> the other tasks of the process
  (the ledger watcher above all) may run, and the chain may move. The model threads a
  world \<open>'w\<close> through every \<open>await\<close>. The shared \<open>EventStore\<close> and the
  \<open>signingPolicies\<close> map are read from the world at the moment the source reads them;
  a contract call or a \<open>sleep\<close> takes the world to the next one. Nothing is assumed of
  the world: the record below is a parameter of every driver.

  A thrown value or a rejected promise is an \<open>exn\<close>. The trace records every
  transaction a driver sends and every \<open>logger.error\<close> line it writes, in order; the
  \<open>logger.info\<close> lines change nothing and are not recorded.
\<close>

datatype exn = Error string | TypeError string

datatype Tx =
    Submit1 string
  | Submit2 string
  | SubmitSignatures string
  | RegisterVoter string string string
  | SignNewSigningPolicy int string string string
  | Relay string string string

datatype Effect = Sent Tx | Logged exn

record IProtocolMessageMerkleRoot =
  msgProtocolId :: int
  msgVotingRoundId :: int
  msgIsSecureRandom :: bool
  msgMerkleRoot :: string

record RelayMessage =
  relaySigningPolicy :: ISigningPolicy
  relaySignatures :: "string list"
  relayProtocolMessageMerkleRoot :: IProtocolMessageMerkleRoot

text \<open>
  \<open>transact\<close> stands for every state-changing contract call and for
  \<open>web3.eth.sendTransaction\<close>: the arguments of \<open>RegisterVoter\<close> are the identity
  address, the signature and the sender; those of \<open>SignNewSigningPolicy\<close> the reward
  epoch, the policy hash, the signature and the sender; those of \<open>Relay\<close> the sender,
  the receiver and the data. It answers with the decoded logs of the response, or
  rejects. The pure services (hashing, signing, encoding) are fields as well.
\<close>

record 'w Env =
  readEvents :: "'w \<Rightarrow> EventStore"
  readSigningPolicies :: "'w \<Rightarrow> (int \<rightharpoonup> ISigningPolicy)"
  dateNow :: "'w \<Rightarrow> int"
  sleep :: "int \<Rightarrow> 'w \<Rightarrow> 'w"
  transact :: "Tx \<Rightarrow> 'w \<Rightarrow> (exn + LogEntry list) \<times> 'w"
  getCurrentRewardEpochId :: "'w \<Rightarrow> (exn + int) \<times> 'w"
  getCurrentRandomWithQuality :: "'w \<Rightarrow> (exn + int \<times> bool) \<times> 'w"
  toSigningPolicyHash :: "int \<Rightarrow> 'w \<Rightarrow> (exn + string) \<times> 'w"
  getConfirmedMerkleRoot :: "int \<Rightarrow> int \<Rightarrow> 'w \<Rightarrow> (exn + string) \<times> 'w"
  keccak256 :: "string \<Rightarrow> string"
  encodeUint24Address :: "int \<Rightarrow> string \<Rightarrow> string"
  accountsSign :: "string \<Rightarrow> string \<Rightarrow> string"
  hashMessage :: "IProtocolMessageMerkleRoot \<Rightarrow> string"
  signMessageHash :: "string \<Rightarrow> string \<Rightarrow> nat \<Rightarrow> string"
  encodeRelayMessage :: "RelayMessage \<Rightarrow> string"
  relayAddress :: string

type_synonym 'w state = "'w \<times> Effect list"

text \<open>\<open>try { await tx } catch (e) { logger.error(e) }\<close>.\<close>

definition tryTransact :: "'w Env \<Rightarrow> Tx \<Rightarrow> 'w state \<Rightarrow> 'w state" where
  "tryTransact env tx st =
     (case transact env tx (fst st) of
        (Inl e, w') \<Rightarrow> (w', snd st @ [Sent tx, Logged e])
      | (Inr _, w') \<Rightarrow> (w', snd st @ [Sent tx]))"

text \<open>\<open>while (cond) { await sleep(500) }\<close>: it returns nothing when it never ends.\<close>

partial_function (option) waitWhile :: "('w \<Rightarrow> bool) \<Rightarrow> ('w \<Rightarrow> 'w) \<Rightarrow> 'w \<Rightarrow> 'w option" where
  "waitWhile cond pause w = (if cond w then waitWhile cond pause (pause w) else Some w)"

section \<open>Strings\<close>

text \<open>
  \<open>String.prototype.toLowerCase\<close> on the ASCII letters (addresses are hexadecimal
  text), and the decimal text of an integer as string concatenation produces it.
\<close>

definition toLowerChar :: "char \<Rightarrow> char" where
  "toLowerChar c =
     (case map_of (zip ''ABCDEFGHIJKLMNOPQRSTUVWXYZ'' ''abcdefghijklmnopqrstuvwxyz'') c of
        Some l \<Rightarrow> l
      | None \<Rightarrow> c)"

definition toLowerCase :: "string \<Rightarrow> string" where
  "toLowerCase s = map toLowerChar s"

fun natToDecimal :: "nat \<Rightarrow> string" where
  "natToDecimal n =
     (if n < 10 then [''0123456789'' ! n] else natToDecimal (n div 10) @ [''0123456789'' ! (n mod 10)])"

definition numberToString :: "int \<Rightarrow> string" where
  "numberToString i = (if i < 0 then ''-'' @ natToDecimal (nat (- i)) else natToDecimal (nat i))"

section \<open>The finalization engine: \<open>fakeFinalize\<close>\<close>

definition FTSO_PROTOCOL_ID :: int where
  "FTSO_PROTOCOL_ID = 100"

definition RELAY_SELECTOR :: "'w Env \<Rightarrow> string" where
  "RELAY_SELECTOR env = take 10 (keccak256 env ''relay()'')"

text \<open>
  \<open>registeredAccounts.find(x => x.signingPolicy.address.toLowerCase() == voter.toLowerCase())\<close>:
  the first account that matches, if any.
\<close>

definition findByVoter :: "string \<Rightarrow> RegisteredAccount list \<Rightarrow> RegisteredAccount option" where
  "findByVoter voter registeredAccounts =
     List.find (\<lambda>x. toLowerCase (address (signingPolicy x)) = toLowerCase voter) registeredAccounts"

text \<open>The loop of lines 653 to 660 over \<open>signingPolicy.voters\<close>.\<close>

fun privateKeysInOrder :: "string list \<Rightarrow> RegisteredAccount list \<Rightarrow> string list" where
  "privateKeysInOrder [] registeredAccounts = []"
| "privateKeysInOrder (voter # rest) registeredAccounts =
     (case findByVoter voter registeredAccounts of
        Some acc \<Rightarrow> privateKey (signingPolicy acc) # privateKeysInOrder rest registeredAccounts
      | None \<Rightarrow> privateKeysInOrder rest registeredAccounts)"

text \<open>
  Modelled from the spec: \<open>generateSignatures\<close> is imported from
  \<open>test/unit/protocol/coding/coding-helpers\<close>, which is not among the sources. The spec
  has the engine produce, for each key in the order given, that participant's
  signature over the digest; the signing primitive is the parameter
  \<open>signMessageHash\<close>, which is given the digest, the key and the key's position.
\<close>

definition generateSignatures :: "'w Env \<Rightarrow> string list \<Rightarrow> string \<Rightarrow> nat \<Rightarrow> string list" where
  "generateSignatures env privateKeys messageHash n =
     map (\<lambda>i. signMessageHash env messageHash (privateKeys ! i) i) [0..<n]"

text \<open>Lines 652 to 662: the signature list that goes into the relay message.\<close>

definition finalizationSignatures ::
  "'w Env \<Rightarrow> string list \<Rightarrow> RegisteredAccount list \<Rightarrow> string \<Rightarrow> string list" where
  "finalizationSignatures env policyVoters registeredAccounts messageHash =
     (let keys = privateKeysInOrder policyVoters registeredAccounts
      in generateSignatures env keys messageHash (length keys))"

text \<open>Lines 640 to 649: the message a round's finalization attests.\<close>

definition protocolMessage :: "'w Env \<Rightarrow> EpochSettings \<Rightarrow> int \<Rightarrow> IProtocolMessageMerkleRoot" where
  "protocolMessage env epochSettings now =
     (let votingRound = votingEpochForTime epochSettings now;
          fakeMerkleRoot = keccak256 env (''root1'' @ numberToString votingRound)
      in \<lparr>msgProtocolId = FTSO_PROTOCOL_ID, msgVotingRoundId = votingRound,
          msgIsSecureRandom = True, msgMerkleRoot = fakeMerkleRoot\<rparr>)"

text \<open>
  \<open>fakeFinalize\<close>. A missing policy makes \<open>signingPolicy.voters\<close> throw a
  \<open>TypeError\<close> outside the \<open>try\<close>; an empty account list makes
  \<open>registeredAccounts[0].signingPolicy\<close> throw inside it, where it is caught and logged
  like a failed submission.
\<close>

definition fakeFinalize ::
  "'w Env \<Rightarrow> RegisteredAccount list \<Rightarrow> EpochSettings \<Rightarrow> int \<Rightarrow> 'w state
     \<Rightarrow> (exn + unit) \<times> 'w state" where
  "fakeFinalize env registeredAccounts epochSettings now st =
     (let rewardEpoch = rewardEpochForTime epochSettings now;
          messageData = protocolMessage env epochSettings now
      in case readSigningPolicies env (fst st) rewardEpoch of
           None \<Rightarrow> (Inl (TypeError ''Cannot read properties of undefined (reading voters)''), st)
         | Some policy \<Rightarrow>
             (let messageHash = hashMessage env messageData;
                  sigs = finalizationSignatures env (voters policy) registeredAccounts messageHash;
                  relayMessage = \<lparr>relaySigningPolicy = policy, relaySignatures = sigs,
                                   relayProtocolMessageMerkleRoot = messageData\<rparr>;
                  fullData = encodeRelayMessage env relayMessage
              in case registeredAccounts of
                   [] \<Rightarrow> (Inr (), (fst st, snd st @
                            [Logged (TypeError ''Cannot read properties of undefined (reading signingPolicy)'')]))
                 | first # _ \<Rightarrow>
                     (Inr (), tryTransact env
                        (Relay (address (signingPolicy first)) (relayAddress env)
                           (RELAY_SELECTOR env @ drop 2 fullData)) st)))"

section \<open>The voting round driver: \<open>runVotingRound\<close>\<close>

text \<open>Lines 584 to 587: the wait before the round's protocol starts.\<close>

definition awaitInitialization :: "'w Env \<Rightarrow> int \<Rightarrow> 'w \<Rightarrow> 'w option" where
  "awaitInitialization env votingRound w =
     waitWhile (\<lambda>w. votingRound < initializedVotingRound (readEvents env w)) (sleep env 500) w"

text \<open>The three loops over \<open>registeredAccounts\<close>, each submission in its own \<open>try\<close>.\<close>

fun submit1All :: "'w Env \<Rightarrow> RegisteredAccount list \<Rightarrow> 'w state \<Rightarrow> 'w state" where
  "submit1All env [] st = st"
| "submit1All env (acc # rest) st =
     submit1All env rest (tryTransact env (Submit1 (address (submit acc))) st)"

fun submit2All :: "'w Env \<Rightarrow> RegisteredAccount list \<Rightarrow> 'w state \<Rightarrow> 'w state" where
  "submit2All env [] st = st"
| "submit2All env (acc # rest) st =
     submit2All env rest (tryTransact env (Submit2 (address (submit acc))) st)"

fun submitSignaturesAll :: "'w Env \<Rightarrow> RegisteredAccount list \<Rightarrow> 'w state \<Rightarrow> 'w state" where
  "submitSignaturesAll env [] st = st"
| "submitSignaturesAll env (acc # rest) st =
     submitSignaturesAll env rest
       (tryTransact env (SubmitSignatures (address (submitSignatures acc))) st)"

text \<open>\<open>await sleep(deadlineMs - Date.now())\<close>.\<close>

definition sleepUntil :: "'w Env \<Rightarrow> int \<Rightarrow> 'w state \<Rightarrow> 'w state" where
  "sleepUntil env deadlineMs st = (sleep env (deadlineMs - dateNow env (fst st)) (fst st), snd st)"

text \<open>
  \<open>runVotingRound\<close>. The result is \<open>None\<close> when the wait never ends; a rejected
  \<open>getConfirmedMerkleRoot\<close> and a \<open>TypeError\<close> of \<open>fakeFinalize\<close> are not caught and
  leave the function as exceptions.
\<close>

definition runVotingRound ::
  "'w Env \<Rightarrow> bool \<Rightarrow> RegisteredAccount list \<Rightarrow> EpochSettings \<Rightarrow> bool \<Rightarrow> int \<Rightarrow> 'w state
     \<Rightarrow> ((exn + unit) \<times> 'w state) option" where
  "runVotingRound env skipSubmit registeredAccounts epochSettings skipFinalisation now st =
     (let votingRound = votingEpochForTime epochSettings now
      in case awaitInitialization env votingRound (fst st) of
           None \<Rightarrow> None
         | Some w0 \<Rightarrow>
             (case getConfirmedMerkleRoot env FTSO_PROTOCOL_ID (votingRound - 2) w0 of
                (Inl e, w1) \<Rightarrow> Some (Inl e, (w1, snd st))
              | (Inr previousMerkleRoot, w1) \<Rightarrow>
                  (let st1 = (w1, snd st);
                       st2 = (if \<not> skipSubmit then
                                (let committed = submit1All env registeredAccounts st1;
                                     revealStartMs = votingEpochStartMs epochSettings (votingRound + 1)
                                 in submit2All env registeredAccounts
                                      (sleepUntil env revealStartMs committed))
                              else st1);
                       revealDeadlineMs = votingEpochStartMs epochSettings (votingRound + 1)
                                            + (votingEpochDurationSec epochSettings * 1000) div 2;
                       st3 = sleepUntil env revealDeadlineMs st2;
                       st4 = (if \<not> skipSubmit then submitSignaturesAll env registeredAccounts st3
                              else st3)
                   in if \<not> skipFinalisation
                      then Some (fakeFinalize env registeredAccounts epochSettings now st4)
                      else Some (Inr (), st4))))"

section \<open>The signing policy driver: \<open>defineNextSigningPolicy\<close>\<close>

text \<open>
  The two skip sets are module constants read from the process environment; they hold
  lower-case addresses and are parameters here.

  \<open>registerVoter\<close> has no \<open>try\<close>: a rejected transaction is an exception of the caller.
\<close>

definition registerVoterTx :: "'w Env \<Rightarrow> int \<Rightarrow> RegisteredAccount \<Rightarrow> Tx" where
  "registerVoterTx env rewardEpoch acc =
     (let hash = keccak256 env (encodeUint24Address env rewardEpoch (address (identity acc)));
          signature = accountsSign env hash (privateKey (signingPolicy acc))
      in RegisterVoter (address (identity acc)) signature (address (submitSignatures acc)))"

definition registerVoter ::
  "'w Env \<Rightarrow> int \<Rightarrow> RegisteredAccount \<Rightarrow> 'w state \<Rightarrow> (exn + unit) \<times> 'w state" where
  "registerVoter env rewardEpoch acc st =
     (let tx = registerVoterTx env rewardEpoch acc
      in case transact env tx (fst st) of
           (Inl e, w') \<Rightarrow> (Inl e, (w', snd st @ [Sent tx]))
         | (Inr _, w') \<Rightarrow> (Inr (), (w', snd st @ [Sent tx])))"

definition skipped :: "string set \<Rightarrow> RegisteredAccount \<Rightarrow> bool" where
  "skipped skipSet acc \<longleftrightarrow> toLowerCase (address (signingPolicy acc)) \<in> skipSet"

text \<open>Lines 490 to 496: the registration loop.\<close>

fun registerVoters ::
  "'w Env \<Rightarrow> string set \<Rightarrow> int \<Rightarrow> RegisteredAccount list \<Rightarrow> 'w state
     \<Rightarrow> (exn + unit) \<times> 'w state" where
  "registerVoters env skipSet nextRewardEpoch [] st = (Inr (), st)"
| "registerVoters env skipSet nextRewardEpoch (acc # rest) st =
     (if skipped skipSet acc then registerVoters env skipSet nextRewardEpoch rest st
      else case registerVoter env nextRewardEpoch acc st of
             (Inl e, st') \<Rightarrow> (Inl e, st')
           | (Inr _, st') \<Rightarrow> registerVoters env skipSet nextRewardEpoch rest st')"

definition signTx :: "'w Env \<Rightarrow> string \<Rightarrow> int \<Rightarrow> string \<Rightarrow> RegisteredAccount \<Rightarrow> Tx" where
  "signTx env governance nextRewardEpoch newSigningPolicyHash acc =
     (let signature = accountsSign env newSigningPolicyHash (privateKey (signingPolicy acc))
      in SignNewSigningPolicy nextRewardEpoch newSigningPolicyHash signature governance)"

text \<open>
  Lines 506 to 530: the ratification loop. Its value tells how it was left:
  \<open>Inr True\<close> by the \<open>return\<close> inside the loop (threshold reached), \<open>Inr False\<close> by
  running off the end of the list, \<open>Inl\<close> by an exception.
\<close>

fun signNewSigningPolicies ::
  "'w Env \<Rightarrow> string set \<Rightarrow> string \<Rightarrow> int \<Rightarrow> string \<Rightarrow> RegisteredAccount list \<Rightarrow> 'w state
     \<Rightarrow> (exn + bool) \<times> 'w state" where
  "signNewSigningPolicies env skipSet governance nextRewardEpoch hash [] st = (Inr False, st)"
| "signNewSigningPolicies env skipSet governance nextRewardEpoch hash (acc # rest) st =
     (if skipped skipSet acc
      then signNewSigningPolicies env skipSet governance nextRewardEpoch hash rest st
      else
        (let tx = signTx env governance nextRewardEpoch hash acc
         in case transact env tx (fst st) of
              (Inl e, w') \<Rightarrow> (Inl e, (w', snd st @ [Sent tx]))
            | (Inr logs, w') \<Rightarrow>
                (let st' = (w', snd st @ [Sent tx])
                 in case logs of
                      [] \<Rightarrow> (Inl (Error ''Expected signing policy to be signed''), st')
                    | l # _ \<Rightarrow>
                        if event l \<noteq> ''SigningPolicySigned''
                        then (Inl (Error ''Expected signing policy to be signed''), st')
                        else if thresholdReached (args l) then (Inr True, st')
                        else signNewSigningPolicies env skipSet governance nextRewardEpoch hash
                               rest st')))"

text \<open>The waits of the driver: \<open>while (!rewardEvents.get(id)?.includes(name)) await sleep(500)\<close>.\<close>

definition awaitEvent :: "'w Env \<Rightarrow> int \<Rightarrow> string \<Rightarrow> 'w \<Rightarrow> 'w option" where
  "awaitEvent env rewardEpoch name w =
     waitWhile (\<lambda>w. \<not> hasEvent (rewardEpochEvents (readEvents env w)) rewardEpoch name)
       (sleep env 500) w"

text \<open>
  Lines 473 to 488: the driver reads the current reward epoch, waits for the start of
  random acquisition, requires good randomness and waits for the vote power block. It
  yields the current reward epoch id.
\<close>

definition awaitVotePowerBlock :: "'w Env \<Rightarrow> 'w state \<Rightarrow> ((exn + int) \<times> 'w state) option" where
  "awaitVotePowerBlock env st =
     (case getCurrentRewardEpochId env (fst st) of
        (Inl e, w1) \<Rightarrow> Some (Inl e, (w1, snd st))
      | (Inr rewardEpoch, w1) \<Rightarrow>
          (case awaitEvent env rewardEpoch ''RandomAcquisitionStarted'' w1 of
             None \<Rightarrow> None
           | Some w2 \<Rightarrow>
               (case getCurrentRandomWithQuality env w2 of
                  (Inl e, w3) \<Rightarrow> Some (Inl e, (w3, snd st))
                | (Inr random, w3) \<Rightarrow>
                    if \<not> snd random then Some (Inl (Error ''No good random''), (w3, snd st))
                    else (case awaitEvent env rewardEpoch ''VotePowerBlockSelected'' w3 of
                            None \<Rightarrow> None
                          | Some w4 \<Rightarrow> Some (Inr rewardEpoch, (w4, snd st))))))"

text \<open>
  \<open>defineNextSigningPolicy\<close>: the steps above, the registration loop, the wait for the
  policy, its hash, and the ratification loop. No step is inside a \<open>try\<close>.
\<close>

definition defineNextSigningPolicy ::
  "'w Env \<Rightarrow> string set \<Rightarrow> string set \<Rightarrow> Account \<Rightarrow> RegisteredAccount list \<Rightarrow> 'w state
     \<Rightarrow> ((exn + unit) \<times> 'w state) option" where
  "defineNextSigningPolicy env skipRegistration skipSigning governanceAccount registeredAccounts st =
     (case awaitVotePowerBlock env st of
        None \<Rightarrow> None
      | Some (Inl e, st4) \<Rightarrow> Some (Inl e, st4)
      | Some (Inr rewardEpoch, st4) \<Rightarrow>
          (let nextRewardEpoch = rewardEpoch + 1 in
           case registerVoters env skipRegistration nextRewardEpoch registeredAccounts st4 of
             (Inl e, st5) \<Rightarrow> Some (Inl e, st5)
           | (Inr _, st5) \<Rightarrow>
               (case awaitEvent env rewardEpoch ''SigningPolicyInitialized'' (fst st5) of
                  None \<Rightarrow> None
                | Some w6 \<Rightarrow>
                    (case toSigningPolicyHash env nextRewardEpoch w6 of
                       (Inl e, w7) \<Rightarrow> Some (Inl e, (w7, snd st5))
                     | (Inr newSigningPolicyHash, w7) \<Rightarrow>
                         (case signNewSigningPolicies env skipSigning (address governanceAccount)
                                 nextRewardEpoch newSigningPolicyHash registeredAccounts
                                 (w7, snd st5) of
                            (Inl e, st8) \<Rightarrow> Some (Inl e, st8)
                          | (Inr _, st8) \<Rightarrow> Some (Inr (), st8))))))"

section \<open>Timing constants and \<open>systemSettings\<close>\<close>

definition REWARD_EPOCH_DURATION_IN_VOTING_EPOCHS :: int where
  "REWARD_EPOCH_DURATION_IN_VOTING_EPOCHS = 5"

definition VOTING_EPOCH_DURATION_SEC :: int where
  "VOTING_EPOCH_DURATION_SEC = 20"

definition REWARD_EPOCH_DURATION_IN_SEC :: int where
  "REWARD_EPOCH_DURATION_IN_SEC = REWARD_EPOCH_DURATION_IN_VOTING_EPOCHS * VOTING_EPOCH_DURATION_SEC"

definition FIRST_REWARD_EPOCH_VOTING_ROUND_ID :: int where
  "FIRST_REWARD_EPOCH_VOTING_ROUND_ID = 1000"

definition FIRST_REWARD_EPOCH_START_VOTING_ROUND_ID :: int where
  "FIRST_REWARD_EPOCH_START_VOTING_ROUND_ID = 1000"

text \<open>The object that \<open>systemSettings(now)\<close> returns.\<close>

record UpdatableSettings =
  newSigningPolicyInitializationStartSeconds :: int
  randomAcquisitionMaxDurationSeconds :: int
  randomAcquisitionMaxDurationBlocks :: int
  newSigningPolicyMinNumberOfVotingRoundsDelay :: int
  voterRegistrationMinDurationSeconds :: int
  voterRegistrationMinDurationBlocks :: int
  submitUptimeVoteMinDurationSeconds :: int
  submitUptimeVoteMinDurationBlocks :: int
  signingPolicyThresholdPPM :: int
  signingPolicyMinNumberOfVoters :: int
  rewardExpiryOffsetSeconds :: int

record SystemSettings =
  firstVotingRoundStartTs :: int
  votingEpochDurationSeconds :: int
  firstRewardEpochStartVotingRoundId :: int
  rewardEpochDurationInVotingEpochs :: int
  updatableSettings :: UpdatableSettings

definition systemSettings :: "int \<Rightarrow> SystemSettings" where
  "systemSettings now =
     \<lparr>firstVotingRoundStartTs = now - FIRST_REWARD_EPOCH_START_VOTING_ROUND_ID * VOTING_EPOCH_DURATION_SEC,
      votingEpochDurationSeconds = VOTING_EPOCH_DURATION_SEC,
      firstRewardEpochStartVotingRoundId = FIRST_REWARD_EPOCH_START_VOTING_ROUND_ID,
      rewardEpochDurationInVotingEpochs = REWARD_EPOCH_DURATION_IN_VOTING_EPOCHS,
      updatableSettings =
        \<lparr>newSigningPolicyInitializationStartSeconds = 45,
         randomAcquisitionMaxDurationSeconds = 80,
         randomAcquisitionMaxDurationBlocks = 1000,
         newSigningPolicyMinNumberOfVotingRoundsDelay = 0,
         voterRegistrationMinDurationSeconds = 10,
         voterRegistrationMinDurationBlocks = 1,
         submitUptimeVoteMinDurationSeconds = 10,
         submitUptimeVoteMinDurationBlocks = 1,
         signingPolicyThresholdPPM = 500000,
         signingPolicyMinNumberOfVoters = 2,
         rewardExpiryOffsetSeconds = 1000\<rparr>\<rparr>"

text \<open>
  Modelled from the spec: the epoch clock is the class \<open>EpochSettings\<close> of
  \<open>deployment/utils/EpochSettings\<close>, which is not among the sources. The spec gives
  \<open>roundId = floor((timestamp - firstRoundStart) / roundDurationSec)\<close> and derives the
  reward epoch id from the first reward epoch's round offset and the number of rounds
  in a reward epoch; both are taken from the settings record above, and timestamps are
  in seconds. Integer \<open>div\<close> rounds towards minus infinity, as \<open>floor\<close> does.
\<close>

definition votingRoundAt :: "SystemSettings \<Rightarrow> int \<Rightarrow> int" where
  "votingRoundAt s t = (t - firstVotingRoundStartTs s) div votingEpochDurationSeconds s"

text \<open>
  Modelled from the spec: the reward epoch id, from the round id, the first reward
  epoch's round offset and the number of rounds in a reward epoch.
\<close>

definition rewardEpochAt :: "SystemSettings \<Rightarrow> int \<Rightarrow> int" where
  "rewardEpochAt s t =
     (votingRoundAt s t - firstRewardEpochStartVotingRoundId s) div rewardEpochDurationInVotingEpochs s"

section \<open>Predicates and projections of the statements\<close>

text \<open>
  The accounts of a participant list are well formed when the private key is a
  function of the (lower-case) signing-policy address, as it is for accounts derived
  from their keys.
\<close>

definition keyByAddress :: "RegisteredAccount list \<Rightarrow> bool" where
  "keyByAddress accs \<longleftrightarrow>
     (\<forall>x \<in> set accs. \<forall>y \<in> set accs.
        toLowerCase (address (signingPolicy x)) = toLowerCase (address (signingPolicy y))
          \<longrightarrow> privateKey (signingPolicy x) = privateKey (signingPolicy y))"

text \<open>The transactions of a trace, in order.\<close>

fun sentTxs :: "Effect list \<Rightarrow> Tx list" where
  "sentTxs [] = []"
| "sentTxs (Sent tx # rest) = tx # sentTxs rest"
| "sentTxs (Logged e # rest) = sentTxs rest"

text \<open>The submissions of the voting round: commit, reveal and signature.\<close>

fun isSubmission :: "Tx \<Rightarrow> bool" where
  "isSubmission (Submit1 sender) = True"
| "isSubmission (Submit2 sender) = True"
| "isSubmission (SubmitSignatures sender) = True"
| "isSubmission tx = False"

section \<open>Concrete inputs\<close>

definition demoArgs :: LogArgs where
  "demoArgs = \<lparr>argRewardEpochId = 2, argStartVotingRoundId = 1010, argThreshold = 500,
     argSeed = 255, argVoters = [''0xAa'', ''0xBb'', ''0xCc''], argWeights = [3, 2, 1],
     thresholdReached = False\<rparr>"

definition demoEpochSettings :: EpochSettings where
  "demoEpochSettings = \<lparr>votingEpochForTime = (\<lambda>ms. ms div 1000 div 20),
     rewardEpochForTime = (\<lambda>ms. ms div 1000 div 100),
     votingEpochStartMs = (\<lambda>r. r * 20 * 1000),
     votingEpochDurationSec = 20\<rparr>"

definition demoLedger :: "int \<rightharpoonup> string list" where
  "demoLedger = [1 \<mapsto> [''RandomAcquisitionStarted''], 2 \<mapsto> [''RewardEpochStarted'']]"

definition mkAccount :: "string \<Rightarrow> RegisteredAccount" where
  "mkAccount n =
     \<lparr>submit = \<lparr>address = ''0xS'' @ n, privateKey = ''s'' @ n\<rparr>,
      submitSignatures = \<lparr>address = ''0xG'' @ n, privateKey = ''g'' @ n\<rparr>,
      signingPolicy = \<lparr>address = ''0x'' @ n @ n, privateKey = ''k'' @ n\<rparr>,
      identity = \<lparr>address = ''0xI'' @ n, privateKey = ''i'' @ n\<rparr>\<rparr>"

definition demoAccounts :: "RegisteredAccount list" where
  "demoAccounts = [mkAccount ''A'', mkAccount ''B'', mkAccount ''C'']"

definition demoGovernance :: Account where
  "demoGovernance = \<lparr>address = ''0xGov'', privateKey = ''gov''\<rparr>"

definition demoAccountsD :: "RegisteredAccount list" where
  "demoAccountsD = [mkAccount ''A'', mkAccount ''D'', mkAccount ''C'']"

text \<open>
  The scenario of the spec: rounds of 20 s, reward epochs of 100 s, round 0 and reward
  epoch 0 both starting at the genesis timestamp.
\<close>

definition scenarioSettings :: "int \<Rightarrow> SystemSettings" where
  "scenarioSettings genesis =
     (systemSettings genesis)\<lparr>firstVotingRoundStartTs := genesis,
                                firstRewardEpochStartVotingRoundId := 0\<rparr>"

definition demoPolicy :: ISigningPolicy where
  "demoPolicy = extractSigningPolicy demoArgs"

text \<open>
  A small world for the concrete runs: the number of sleeps so far and the number of
  policy signatures the authority has accepted. Its authority acknowledges a policy
  signature and reports the threshold reached from the second one on, except for the
  key \<open>kD\<close>, whose submission it answers with another event; it rejects the commit of
  B, the reveal of A, the signature submission of C and the registration of A. Its store has initialized round 12 and holds the three transition events of
  reward epoch 1.
\<close>

definition demoTransact :: "Tx \<Rightarrow> nat \<times> nat \<Rightarrow> (exn + LogEntry list) \<times> (nat \<times> nat)" where
  "demoTransact tx w =
     (case tx of
        Submit1 sender \<Rightarrow>
          (if sender = ''0xSB'' then Inl (Error ''submit1 reverted'') else Inr [], w)
      | Submit2 sender \<Rightarrow>
          (if sender = ''0xSA'' then Inl (Error ''submit2 reverted'') else Inr [], w)
      | SubmitSignatures sender \<Rightarrow>
          (if sender = ''0xGC'' then Inl (Error ''submitSignatures reverted'') else Inr [], w)
      | RegisterVoter voter sig sender \<Rightarrow>
          (if voter = ''0xIA'' then Inl (Error ''registerVoter reverted'') else Inr [], w)
      | SignNewSigningPolicy epoch hash sig sender \<Rightarrow>
          (if sig = ''0xhash/kD''
           then (Inr [\<lparr>event = ''UptimeVoteSigned'', args = demoArgs\<rparr>], w)
           else (Inr [\<lparr>event = ''SigningPolicySigned'',
                        args = demoArgs\<lparr>thresholdReached := (2 \<le> Suc (snd w))\<rparr>\<rparr>],
                 (fst w, Suc (snd w))))
      | Relay sender receiver payload \<Rightarrow> (Inr [], w))"

definition demoStore :: EventStore where
  "demoStore = \<lparr>initializedVotingRound = 12,
     rewardEpochEvents = [1 \<mapsto> [''RandomAcquisitionStarted'', ''VotePowerBlockSelected'',
                                   ''SigningPolicyInitialized'']]\<rparr>"

definition demoEnv :: "(nat \<times> nat) Env" where
  "demoEnv =
     \<lparr>readEvents = (\<lambda>w. demoStore),
      readSigningPolicies = (\<lambda>w. [2 \<mapsto> demoPolicy]),
      dateNow = (\<lambda>w. 0),
      sleep = (\<lambda>ms w. (Suc (fst w), snd w)),
      transact = demoTransact,
      getCurrentRewardEpochId = (\<lambda>w. (Inr 1, w)),
      getCurrentRandomWithQuality = (\<lambda>w. (Inr (42, True), w)),
      toSigningPolicyHash = (\<lambda>epoch w. (Inr ''0xhash'', w)),
      getConfirmedMerkleRoot = (\<lambda>protocol round w. (Inr ''0xroot'', w)),
      keccak256 = (\<lambda>s. ''0x'' @ s),
      encodeUint24Address = (\<lambda>epoch a. numberToString epoch @ a),
      accountsSign = (\<lambda>h k. h @ ''/'' @ k),
      hashMessage = msgMerkleRoot,
      signMessageHash = (\<lambda>h k i. k @ ''#'' @ numberToString (int i)),
      encodeRelayMessage = (\<lambda>m. ''0x'' @ concat (relaySignatures m)),
      relayAddress = ''0xrelay''\<rparr>"

section \<open>The event store\<close>

lemma processLog_initialized:
  "initializedVotingRound (fst (processLog es log ts st)) =
     (if event log = ''NewVotingRoundInitiated''
      then max (initializedVotingRound (fst st)) (votingEpochForTime es (ts * 1000))
      else initializedVotingRound (fst st))"
  by (simp add: processLog_def Let_def max_def)

lemma processLog_initialized_mono:
  "initializedVotingRound (fst st) \<le> initializedVotingRound (fst (processLog es log ts st))"
  by (simp add: processLog_initialized)

lemma processLogs_initialized_mono:
  "initializedVotingRound (fst st) \<le> initializedVotingRound (fst (processLogs es ls st))"
proof (induction ls arbitrary: st)
  case Nil
  show ?case by simp
next
  case (Cons l ls)
  obtain log ts where l: "l = (log, ts)" by (cases l)
  have "initializedVotingRound (fst st)
          \<le> initializedVotingRound (fst (processLog es log ts st))"
    by (rule processLog_initialized_mono)
  also have "\<dots> \<le> initializedVotingRound (fst (processLogs es ls (processLog es log ts st)))"
    by (rule Cons.IH)
  finally show ?case by (simp add: l)
qed

lemma processLogs_append:
  "processLogs es (xs @ ys) st = processLogs es ys (processLogs es xs st)"
proof (induction xs arbitrary: st)
  case Nil
  show ?case by simp
next
  case (Cons x xs)
  obtain log ts where x: "x = (log, ts)" by (cases x)
  show ?case unfolding x by (simp add: Cons.IH)
qed

text \<open>
  Claim C6. A \<open>NewVotingRoundInitiated\<close> log sets the store's
  \<open>initializedVotingRound\<close> to the maximum of its current value and the round id
  computed from the block timestamp; every other log leaves it as it is; and over any
  sequence of processed logs the value never decreases: after a longer run of
  \<open>processLog\<close> calls it is at least what it was after any prefix of that run.
\<close>

theorem initializedVotingRound_max_monotone:
  "initializedVotingRound (fst (processLog es log ts st)) =
     (if event log = ''NewVotingRoundInitiated''
      then max (initializedVotingRound (fst st)) (votingEpochForTime es (ts * 1000))
      else initializedVotingRound (fst st))
   \<and> initializedVotingRound (fst (processLogs es xs st))
       \<le> initializedVotingRound (fst (processLogs es (xs @ ys) st))"
  by (simp only: processLog_initialized processLogs_append processLogs_initialized_mono
        simp_thms)

lemma recordEvent_same:
  "recordEvent m e n e = Some ((case m e of None \<Rightarrow> [] | Some l \<Rightarrow> l) @ [n])"
  by (simp add: recordEvent_def)

lemma recordEvent_other: "e' \<noteq> e \<Longrightarrow> recordEvent m e n e' = m e'"
  by (simp add: recordEvent_def)

lemma hasEvent_recordEvent: "hasEvent (recordEvent m e n) e n"
  by (simp add: hasEvent_def recordEvent_same)

lemma hasEvent_preserved: "hasEvent m e' n' \<Longrightarrow> hasEvent (recordEvent m e n) e' n'"
  by (cases "e' = e")
     (auto simp: hasEvent_def recordEvent_same recordEvent_other
           split: option.splits)

lemma processLog_records:
  "event log \<noteq> ''NewVotingRoundInitiated'' \<Longrightarrow>
     rewardEpochEvents (fst (processLog es log ts st)) =
       recordEvent (rewardEpochEvents (fst st)) (rewardEpochForTime es (ts * 1000)) (event log)"
  by (simp add: processLog_def Let_def)

text \<open>
  Claim C7. Recording an event name for a reward epoch and then asking for it
  round-trips: right after the append the has-event test is true. The epoch's list
  becomes the old list (empty when the epoch had none) followed by the name, so no
  entry is removed, every name that was present stays present, other epochs' lists are
  untouched, and a name that was already there is appended once more (its number of
  occurrences grows by one) instead of being deduplicated. \<open>processLog\<close> does exactly
  this recording, under the epoch of the block timestamp, for every log other than
  \<open>NewVotingRoundInitiated\<close>.
\<close>

theorem recordEvent_hasEvent_roundtrip:
  "hasEvent (recordEvent m e n) e n
   \<and> recordEvent m e n e = Some ((case m e of None \<Rightarrow> [] | Some l \<Rightarrow> l) @ [n])
   \<and> (e' \<noteq> e \<longrightarrow> recordEvent m e n e' = m e')
   \<and> (hasEvent m e' n' \<longrightarrow> hasEvent (recordEvent m e n) e' n')
   \<and> (m e = Some old \<longrightarrow>
        count_list (the (recordEvent m e n e)) n = Suc (count_list old n))
   \<and> (event log \<noteq> ''NewVotingRoundInitiated'' \<longrightarrow>
        rewardEpochEvents (fst (processLog es log ts st)) =
          recordEvent (rewardEpochEvents (fst st)) (rewardEpochForTime es (ts * 1000)) (event log)
        \<and> hasEvent (rewardEpochEvents (fst (processLog es log ts st)))
             (rewardEpochForTime es (ts * 1000)) (event log))"
proof -
  have dup: "m e = Some old \<longrightarrow>
      count_list (the (recordEvent m e n e)) n = Suc (count_list old n)"
    by (simp add: recordEvent_same)
  have pl: "event log \<noteq> ''NewVotingRoundInitiated'' \<longrightarrow>
      rewardEpochEvents (fst (processLog es log ts st)) =
        recordEvent (rewardEpochEvents (fst st)) (rewardEpochForTime es (ts * 1000)) (event log)
      \<and> hasEvent (rewardEpochEvents (fst (processLog es log ts st)))
           (rewardEpochForTime es (ts * 1000)) (event log)"
    by (simp add: processLog_records hasEvent_recordEvent)
  show ?thesis
    using hasEvent_recordEvent [of m e n] recordEvent_same [of m e n]
      recordEvent_other [of e' e m n] hasEvent_preserved [of m e' n' e n] dup pl
    by blast
qed

text \<open>
  The same at a concrete store: epoch 1 already holds \<open>RandomAcquisitionStarted\<close>, the
  name is recorded again, epoch 2 holds \<open>RewardEpochStarted\<close>, and the log
  \<open>VotePowerBlockSelected\<close> arrives at a timestamp of epoch 1.
\<close>

theorem recordEvent_hasEvent_roundtrip_witness:
  "hasEvent (recordEvent demoLedger 1 ''RandomAcquisitionStarted'') 1 ''RandomAcquisitionStarted''
   \<and> recordEvent demoLedger 1 ''RandomAcquisitionStarted'' 1 =
       Some [''RandomAcquisitionStarted'', ''RandomAcquisitionStarted'']
   \<and> recordEvent demoLedger 1 ''RandomAcquisitionStarted'' 2 = Some [''RewardEpochStarted'']
   \<and> hasEvent (recordEvent demoLedger 1 ''RandomAcquisitionStarted'') 2 ''RewardEpochStarted''
   \<and> count_list (the (recordEvent demoLedger 1 ''RandomAcquisitionStarted'' 1))
        ''RandomAcquisitionStarted'' = 2
   \<and> rewardEpochEvents (fst (processLog demoEpochSettings
         \<lparr>event = ''VotePowerBlockSelected'', args = demoArgs\<rparr> 150
         (\<lparr>initializedVotingRound = 7, rewardEpochEvents = demoLedger\<rparr>, Map.empty))) 1
       = Some [''RandomAcquisitionStarted'', ''VotePowerBlockSelected'']
   \<and> hasEvent (rewardEpochEvents (fst (processLog demoEpochSettings
         \<lparr>event = ''VotePowerBlockSelected'', args = demoArgs\<rparr> 150
         (\<lparr>initializedVotingRound = 7, rewardEpochEvents = demoLedger\<rparr>, Map.empty))))
        1 ''VotePowerBlockSelected''"
proof -
  have two: "(2::int) \<noteq> 1" by simp
  have h: "hasEvent demoLedger 2 ''RewardEpochStarted''"
    by (simp add: hasEvent_def demoLedger_def)
  have old: "demoLedger 1 = Some [''RandomAcquisitionStarted'']"
    by (simp add: demoLedger_def)
  have old2: "demoLedger 2 = Some [''RewardEpochStarted'']"
    by (simp add: demoLedger_def)
  have ev: "event \<lparr>event = ''VotePowerBlockSelected'', args = demoArgs\<rparr>
              \<noteq> ''NewVotingRoundInitiated''"
    by simp
  have ep: "rewardEpochForTime demoEpochSettings (150 * 1000) = 1"
    by (simp add: demoEpochSettings_def)
  show ?thesis
    using recordEvent_hasEvent_roundtrip [of demoLedger 1 "''RandomAcquisitionStarted''" 2
        "''RewardEpochStarted''" "[''RandomAcquisitionStarted'']"
        "\<lparr>event = ''VotePowerBlockSelected'', args = demoArgs\<rparr>" demoEpochSettings 150
        "(\<lparr>initializedVotingRound = 7, rewardEpochEvents = demoLedger\<rparr>, Map.empty)"]
      two h old old2 ev ep
    by (simp add: recordEvent_same hasEvent_recordEvent)
qed

section \<open>The finalization engine\<close>

lemma sentTxs_append: "sentTxs (xs @ ys) = sentTxs xs @ sentTxs ys"
  by (induction xs rule: sentTxs.induct) simp_all

lemma privateKeysInOrder_map_filter:
  "privateKeysInOrder vs accs =
     map (\<lambda>a. privateKey (signingPolicy a)) (List.map_filter (\<lambda>v. findByVoter v accs) vs)"
  by (induction vs) (auto simp: List.map_filter_simps split: option.splits)

lemma generateSignatures_enumerate:
  "generateSignatures env keys h (length keys) =
     map (\<lambda>(i, k). signMessageHash env h k i) (enumerate 0 keys)"
  unfolding generateSignatures_def
  by (rule nth_equalityI) (simp_all add: nth_enumerate_eq)

lemma findByVoter_key_set:
  assumes "set accs' = set accs" and "keyByAddress accs"
  shows "map_option (\<lambda>a. privateKey (signingPolicy a)) (findByVoter v accs')
       = map_option (\<lambda>a. privateKey (signingPolicy a)) (findByVoter v accs)"
proof (cases "findByVoter v accs")
  case None
  then have "\<forall>x \<in> set accs. toLowerCase (address (signingPolicy x)) \<noteq> toLowerCase v"
    by (auto simp: findByVoter_def find_None_iff)
  then have "findByVoter v accs' = None"
    using assms(1) by (auto simp: findByVoter_def find_None_iff)
  with None show ?thesis by simp
next
  case (Some a)
  then have a: "a \<in> set accs" "toLowerCase (address (signingPolicy a)) = toLowerCase v"
    by (auto simp: findByVoter_def find_Some_iff)
  then obtain b where b: "findByVoter v accs' = Some b"
    using assms(1) by (cases "findByVoter v accs'") (auto simp: findByVoter_def find_None_iff)
  then have b': "b \<in> set accs" "toLowerCase (address (signingPolicy b)) = toLowerCase v"
    using assms(1) by (auto simp: findByVoter_def find_Some_iff)
  have "toLowerCase (address (signingPolicy b)) = toLowerCase (address (signingPolicy a))"
    by (simp only: a(2) b'(2))
  with a(1) b'(1) assms(2) have "privateKey (signingPolicy b) = privateKey (signingPolicy a)"
    unfolding keyByAddress_def by blast
  with Some b show ?thesis by simp
qed

lemma privateKeysInOrder_set:
  assumes "set accs' = set accs" and "keyByAddress accs"
  shows "privateKeysInOrder vs accs' = privateKeysInOrder vs accs"
proof (induction vs)
  case Nil show ?case by simp
next
  case (Cons v vs)
  have "privateKeysInOrder (v # vs) accs =
      (case map_option (\<lambda>a. privateKey (signingPolicy a)) (findByVoter v accs) of
         Some k \<Rightarrow> k # privateKeysInOrder vs accs | None \<Rightarrow> privateKeysInOrder vs accs)" for accs
    by (simp split: option.splits)
  then show ?case
    by (simp only: findByVoter_key_set [OF assms, of v] Cons.IH)
qed

lemma toLowerCase_demo:
  "toLowerCase ''0xAA'' = ''0xaa''" "toLowerCase ''0xCC'' = ''0xcc''"
  "toLowerCase ''0xAa'' = ''0xaa''" "toLowerCase ''0xBb'' = ''0xbb''"
  "toLowerCase ''0xCc'' = ''0xcc''"
  by (simp_all add: toLowerCase_def toLowerChar_def)

lemma fakeFinalize_relay:
  assumes "readSigningPolicies env (fst st) (rewardEpochForTime es now) = Some policy"
    and "accs = first # others"
  shows "sentTxs (snd (snd (fakeFinalize env accs es now st))) =
     sentTxs (snd st) @
       [Relay (address (signingPolicy first)) (relayAddress env)
          (RELAY_SELECTOR env @ drop 2 (encodeRelayMessage env
             \<lparr>relaySigningPolicy = policy,
              relaySignatures = finalizationSignatures env (voters policy) accs
                                  (hashMessage env (protocolMessage env es now)),
              relayProtocolMessageMerkleRoot = protocolMessage env es now\<rparr>))]"
  using assms
  by (simp add: fakeFinalize_def Let_def tryTransact_def sentTxs_append
        split: prod.splits sum.splits)

text \<open>
  Claim C2. The signature list that \<open>fakeFinalize\<close> puts into the relay message holds
  one signature for each voter of the signing policy that matches a local account
  (addresses compared in lower case), in the order of the policy's voter list; voters
  without a local account are skipped. The list does not depend on the order of the
  local participant list: for well-formed accounts any permutation of the participants
  gives the same list. This list, with the policy and the message, is what the single
  relay transaction carries.
\<close>

theorem fakeFinalize_signature_order:
  "finalizationSignatures env policyVoters accs h =
     map (\<lambda>(i, k). signMessageHash env h k i)
       (enumerate 0 (map (\<lambda>a. privateKey (signingPolicy a))
          (List.map_filter (\<lambda>v. findByVoter v accs) policyVoters)))
   \<and> (mset accs' = mset accs \<and> keyByAddress accs \<longrightarrow>
        finalizationSignatures env policyVoters accs' h =
          finalizationSignatures env policyVoters accs h)
   \<and> (readSigningPolicies env (fst st) (rewardEpochForTime es now) = Some policy
        \<and> accs = first # others \<longrightarrow>
        sentTxs (snd (snd (fakeFinalize env accs es now st))) =
          sentTxs (snd st) @
            [Relay (address (signingPolicy first)) (relayAddress env)
               (RELAY_SELECTOR env @ drop 2 (encodeRelayMessage env
                  \<lparr>relaySigningPolicy = policy,
                   relaySignatures = finalizationSignatures env (voters policy) accs
                                       (hashMessage env (protocolMessage env es now)),
                   relayProtocolMessageMerkleRoot = protocolMessage env es now\<rparr>))])"
proof -
  have order: "finalizationSignatures env policyVoters accs h =
     map (\<lambda>(i, k). signMessageHash env h k i)
       (enumerate 0 (map (\<lambda>a. privateKey (signingPolicy a))
          (List.map_filter (\<lambda>v. findByVoter v accs) policyVoters)))"
    by (simp only: finalizationSignatures_def Let_def generateSignatures_enumerate
          privateKeysInOrder_map_filter)
  have perm: "finalizationSignatures env policyVoters accs' h =
          finalizationSignatures env policyVoters accs h"
    if "mset accs' = mset accs" and k: "keyByAddress accs"
  proof -
    have "set accs' = set accs"
      using that(1) by (rule mset_eq_setD)
    then have "privateKeysInOrder policyVoters accs' = privateKeysInOrder policyVoters accs"
      using k by (rule privateKeysInOrder_set)
    then show ?thesis
      by (simp only: finalizationSignatures_def)
  qed
  from order perm fakeFinalize_relay [of env st es now policy accs first others]
  show ?thesis by blast
qed

text \<open>
  The policy's voters are A, B and C (written \<open>0xAa\<close>, \<open>0xBb\<close>, \<open>0xCc\<close>); the local
  participants hold keys for C and A, listed in that order. The emitted list is
  the signature of A, then the signature of C, for either order of the participants.
\<close>

theorem fakeFinalize_signature_order_witness:
  "finalizationSignatures demoEnv [''0xAa'', ''0xBb'', ''0xCc''] [mkAccount ''C'', mkAccount ''A''] ''h''
     = [''kA#0'', ''kC#1'']
   \<and> finalizationSignatures demoEnv [''0xAa'', ''0xBb'', ''0xCc''] [mkAccount ''A'', mkAccount ''C''] ''h''
     = [''kA#0'', ''kC#1'']
   \<and> sentTxs (snd (snd (fakeFinalize demoEnv [mkAccount ''A'', mkAccount ''C''] demoEpochSettings
         250000 ((0, 0), [])))) = [Relay ''0xAA'' ''0xrelay'' ''0xrelay()kA#0kC#1'']"
proof -
  let ?A = "mkAccount ''A''" and ?C = "mkAccount ''C''"
  let ?vs = "[''0xAa'', ''0xBb'', ''0xCc'']"
  have adr: "address (signingPolicy ?A) = ''0xAA''" "address (signingPolicy ?C) = ''0xCC''"
    by (simp_all add: mkAccount_def)
  have key: "privateKey (signingPolicy ?A) = ''kA''" "privateKey (signingPolicy ?C) = ''kC''"
    by (simp_all add: mkAccount_def)
  have p: "mset [?C, ?A] = mset [?A, ?C]"
    by (simp only: mset.simps add_mset_commute)
  have k: "keyByAddress [?A, ?C]"
    unfolding keyByAddress_def by (simp add: adr toLowerCase_demo)
  have fA: "findByVoter ''0xAa'' [?A, ?C] = Some ?A"
    and fB: "findByVoter ''0xBb'' [?A, ?C] = None"
    and fC: "findByVoter ''0xCc'' [?A, ?C] = Some ?C"
    unfolding findByVoter_def by (simp_all add: adr toLowerCase_demo)
  have f: "List.map_filter (\<lambda>v. findByVoter v [?A, ?C]) ?vs = [?A, ?C]"
    by (simp add: List.map_filter_simps fA fB fC)
  have s: "signMessageHash demoEnv h k i = k @ ''#'' @ numberToString (int i)" for h k i
    by (simp add: demoEnv_def)
  have n: "numberToString 0 = ''0''" "numberToString 1 = ''1''"
    by (simp_all add: numberToString_def)
  have pol: "readSigningPolicies demoEnv (fst ((0::nat, 0::nat), [])) (rewardEpochForTime demoEpochSettings 250000)
      = Some demoPolicy"
    by (simp add: demoEnv_def demoEpochSettings_def)
  have vs: "voters demoPolicy = ?vs"
    by (simp add: demoPolicy_def extractSigningPolicy_def demoArgs_def)
  have sigs: "finalizationSignatures demoEnv ?vs [?A, ?C] h = [''kA#0'', ''kC#1'']" for h
  proof -
    have "finalizationSignatures demoEnv ?vs [?A, ?C] h =
        map (\<lambda>(i, k). signMessageHash demoEnv h k i)
          (enumerate 0 (map (\<lambda>a. privateKey (signingPolicy a)) [?A, ?C]))"
      using fakeFinalize_signature_order
          [of demoEnv ?vs "[?A, ?C]" h "[]" "((0, 0), [])" demoEpochSettings 0 demoPolicy ?A "[]",
           THEN conjunct1]
      by (simp only: f)
    then show ?thesis by (simp add: key s n)
  qed
  have enc: "encodeRelayMessage demoEnv m = ''0x'' @ concat (relaySignatures m)" for m
    by (simp add: demoEnv_def)
  have sel: "RELAY_SELECTOR demoEnv = ''0xrelay()''" "relayAddress demoEnv = ''0xrelay''"
    by (simp_all add: RELAY_SELECTOR_def demoEnv_def)
  note main = fakeFinalize_signature_order
    [of demoEnv ?vs "[?A, ?C]" "''h''" "[?C, ?A]" "((0, 0), [])" demoEpochSettings 250000 demoPolicy ?A "[?C]"]
  from main p k have e2: "finalizationSignatures demoEnv ?vs [?C, ?A] ''h'' =
      finalizationSignatures demoEnv ?vs [?A, ?C] ''h''"
    by blast
  from main pol have "sentTxs (snd (snd (fakeFinalize demoEnv [?A, ?C] demoEpochSettings 250000 ((0, 0), [])))) =
      sentTxs (snd ((0::nat, 0::nat), [])) @
            [Relay (address (signingPolicy ?A)) (relayAddress demoEnv)
               (RELAY_SELECTOR demoEnv @ drop 2 (encodeRelayMessage demoEnv
                  \<lparr>relaySigningPolicy = demoPolicy,
                   relaySignatures = finalizationSignatures demoEnv (voters demoPolicy) [?A, ?C]
                                       (hashMessage demoEnv (protocolMessage demoEnv demoEpochSettings 250000)),
                   relayProtocolMessageMerkleRoot = protocolMessage demoEnv demoEpochSettings 250000\<rparr>))]"
    by blast
  then have e3: "sentTxs (snd (snd (fakeFinalize demoEnv [?A, ?C] demoEpochSettings 250000 ((0, 0), []))))
      = [Relay ''0xAA'' ''0xrelay'' ''0xrelay()kA#0kC#1'']"
    by (simp add: vs sigs enc sel adr)
  from e2 e3 show ?thesis by (simp add: sigs)
qed

section \<open>The voting round driver\<close>

lemma waitWhile_exit: "\<not> cond w \<Longrightarrow> waitWhile cond pause w = Some w"
  by (subst waitWhile.simps) simp

lemma waitWhile_step: "cond w \<Longrightarrow> waitWhile cond pause w = waitWhile cond pause (pause w)"
  by (subst waitWhile.simps) simp

lemma waitWhile_funpow:
  "\<not> cond ((pause ^^ n) w) \<Longrightarrow> (\<forall>m<n. cond ((pause ^^ m) w))
     \<Longrightarrow> waitWhile cond pause w = Some ((pause ^^ n) w)"
proof (induction n arbitrary: w)
  case 0
  then show ?case by (simp add: waitWhile_exit)
next
  case (Suc n)
  from Suc.prems(2) have c: "cond w" by (metis funpow_0 zero_less_Suc)
  have "\<not> cond ((pause ^^ n) (pause w))"
    using Suc.prems(1) by (simp add: funpow_swap1)
  moreover have "\<forall>m<n. cond ((pause ^^ m) (pause w))"
  proof (intro allI impI)
    fix m assume "m < n"
    then have "Suc m < Suc n" by simp
    with Suc.prems(2) have "cond ((pause ^^ Suc m) w)" by blast
    then show "cond ((pause ^^ m) (pause w))" by (simp add: funpow_swap1)
  qed
  ultimately have "waitWhile cond pause (pause w) = Some ((pause ^^ n) (pause w))"
    by (rule Suc.IH)
  with c show ?case by (simp add: waitWhile_step funpow_swap1)
qed

lemma waitWhile_stuck:
  assumes inv: "\<And>v. cond v \<Longrightarrow> cond (pause v)" and c: "cond w"
  shows "waitWhile cond pause w = None"
proof (rule ccontr)
  assume "waitWhile cond pause w \<noteq> None"
  then obtain y where y: "waitWhile cond pause w = Some y" by auto
  have "(\<forall>v. cond v \<longrightarrow> cond (pause v)) \<longrightarrow> \<not> cond w"
  proof (rule waitWhile.raw_induct
      [where P = "\<lambda>c p w y. (\<forall>v. c v \<longrightarrow> c (p v)) \<longrightarrow> \<not> c w", OF _ y])
    fix loop :: "('a \<Rightarrow> bool) \<Rightarrow> ('a \<Rightarrow> 'a) \<Rightarrow> 'a \<Rightarrow> 'a option" and c p v r
    assume IH: "\<And>c p v r. loop c p v = Some r \<Longrightarrow> (\<forall>v. c v \<longrightarrow> c (p v)) \<longrightarrow> \<not> c v"
      and eq: "(if c v then loop c p (p v) else Some v) = Some r"
    show "(\<forall>v. c v \<longrightarrow> c (p v)) \<longrightarrow> \<not> c v"
    proof (cases "c v")
      case True
      with eq have "loop c p (p v) = Some r" by simp
      from IH [OF this] True show ?thesis by blast
    next
      case False
      then show ?thesis by simp
    qed
  qed
  with inv c show False by blast
qed

lemma demo_store: "initializedVotingRound (readEvents demoEnv w) = 12"
  by (simp add: demoEnv_def demoStore_def)

lemma tryTransact_sent: "sentTxs (snd (tryTransact env tx st)) = sentTxs (snd st) @ [tx]"
  by (simp add: tryTransact_def sentTxs_append split: prod.splits sum.splits)

lemma tryTransact_logged:
  "fst (transact env tx (fst st)) = Inl e \<Longrightarrow>
     snd (tryTransact env tx st) = snd st @ [Sent tx, Logged e]"
  by (cases "transact env tx (fst st)") (simp add: tryTransact_def)

lemma submit1All_sent:
  "sentTxs (snd (submit1All env accs st)) =
     sentTxs (snd st) @ map (\<lambda>a. Submit1 (address (submit a))) accs"
  by (induction accs arbitrary: st) (simp_all add: tryTransact_sent)

lemma submit2All_sent:
  "sentTxs (snd (submit2All env accs st)) =
     sentTxs (snd st) @ map (\<lambda>a. Submit2 (address (submit a))) accs"
  by (induction accs arbitrary: st) (simp_all add: tryTransact_sent)

lemma submitSignaturesAll_sent:
  "sentTxs (snd (submitSignaturesAll env accs st)) =
     sentTxs (snd st) @ map (\<lambda>a. SubmitSignatures (address (submitSignatures a))) accs"
  by (induction accs arbitrary: st) (simp_all add: tryTransact_sent)

lemma sleepUntil_trace: "snd (sleepUntil env t st) = snd st"
  by (simp add: sleepUntil_def)

lemma runVotingRound_submit:
  assumes "awaitInitialization env (votingEpochForTime es now) (fst st) = Some w0"
    and "fst (getConfirmedMerkleRoot env FTSO_PROTOCOL_ID (votingEpochForTime es now - 2) w0) = Inr root"
  shows "\<exists>st4. runVotingRound env False accs es skipFin now st =
            Some (if skipFin then (Inr (), st4) else fakeFinalize env accs es now st4)
          \<and> sentTxs (snd st4) = sentTxs (snd st)
               @ map (\<lambda>a. Submit1 (address (submit a))) accs
               @ map (\<lambda>a. Submit2 (address (submit a))) accs
               @ map (\<lambda>a. SubmitSignatures (address (submitSignatures a))) accs"
proof -
  obtain w1 where g: "getConfirmedMerkleRoot env FTSO_PROTOCOL_ID (votingEpochForTime es now - 2) w0
      = (Inr root, w1)"
    using assms(2) by (cases "getConfirmedMerkleRoot env FTSO_PROTOCOL_ID (votingEpochForTime es now - 2) w0") auto
  let ?r = "votingEpochForTime es now"
  let ?st2 = "submit2All env accs (sleepUntil env (votingEpochStartMs es (?r + 1))
                (submit1All env accs (w1, snd st)))"
  let ?st4 = "submitSignaturesAll env accs (sleepUntil env
                (votingEpochStartMs es (?r + 1) + (votingEpochDurationSec es * 1000) div 2) ?st2)"
  have "runVotingRound env False accs es skipFin now st =
            Some (if skipFin then (Inr (), ?st4) else fakeFinalize env accs es now ?st4)"
    by (simp add: runVotingRound_def Let_def assms(1) g)
  moreover have "sentTxs (snd ?st4) = sentTxs (snd st)
               @ map (\<lambda>a. Submit1 (address (submit a))) accs
               @ map (\<lambda>a. Submit2 (address (submit a))) accs
               @ map (\<lambda>a. SubmitSignatures (address (submitSignatures a))) accs"
    by (simp add: submitSignaturesAll_sent submit2All_sent submit1All_sent sleepUntil_trace)
  ultimately show ?thesis by blast
qed

lemma fakeFinalize_no_submission:
  "filter isSubmission (sentTxs (snd (snd (fakeFinalize env accs es now st)))) =
     filter isSubmission (sentTxs (snd st))"
proof (cases "readSigningPolicies env (fst st) (rewardEpochForTime es now)")
  case None
  then show ?thesis by (simp add: fakeFinalize_def Let_def)
next
  case (Some policy)
  then show ?thesis
    by (cases accs) (simp_all add: fakeFinalize_def Let_def sentTxs_append tryTransact_sent)
qed

lemma runVotingRound_skip:
  assumes "awaitInitialization env (votingEpochForTime es now) (fst st) = Some w0"
    and "getConfirmedMerkleRoot env FTSO_PROTOCOL_ID (votingEpochForTime es now - 2) w0 = (Inr root, w1)"
  shows "runVotingRound env True accs es skipFin now st =
      Some (if skipFin
            then (Inr (), sleepUntil env (votingEpochStartMs es (votingEpochForTime es now + 1)
                     + (votingEpochDurationSec es * 1000) div 2) (w1, snd st))
            else fakeFinalize env accs es now
                   (sleepUntil env (votingEpochStartMs es (votingEpochForTime es now + 1)
                     + (votingEpochDurationSec es * 1000) div 2) (w1, snd st)))"
  by (simp add: runVotingRound_def Let_def assms)

lemma submit1All_append:
  "submit1All env (pre @ rest) st = submit1All env rest (submit1All env pre st)"
  by (induction pre arbitrary: st) simp_all

lemma submit2All_append:
  "submit2All env (pre @ rest) st = submit2All env rest (submit2All env pre st)"
  by (induction pre arbitrary: st) simp_all

lemma submitSignaturesAll_append:
  "submitSignaturesAll env (pre @ rest) st =
     submitSignaturesAll env rest (submitSignaturesAll env pre st)"
  by (induction pre arbitrary: st) simp_all

lemma tryTransact_failed:
  "transact env tx (fst st) = (Inl e, w') \<Longrightarrow>
     tryTransact env tx st = (w', snd st @ [Sent tx, Logged e])"
  by (simp add: tryTransact_def)

lemma submit1All_failure:
  "transact env (Submit1 (address (submit a))) (fst (submit1All env pre st)) = (Inl e, w') \<Longrightarrow>
     submit1All env (pre @ a # post) st =
       submit1All env post
         (w', snd (submit1All env pre st) @ [Sent (Submit1 (address (submit a))), Logged e])"
  by (simp add: submit1All_append tryTransact_failed)

lemma submit2All_failure:
  "transact env (Submit2 (address (submit a))) (fst (submit2All env pre st)) = (Inl e, w') \<Longrightarrow>
     submit2All env (pre @ a # post) st =
       submit2All env post
         (w', snd (submit2All env pre st) @ [Sent (Submit2 (address (submit a))), Logged e])"
  by (simp add: submit2All_append tryTransact_failed)

lemma submitSignaturesAll_failure:
  "transact env (SubmitSignatures (address (submitSignatures a)))
       (fst (submitSignaturesAll env pre st)) = (Inl e, w') \<Longrightarrow>
     submitSignaturesAll env (pre @ a # post) st =
       submitSignaturesAll env post
         (w', snd (submitSignaturesAll env pre st)
                @ [Sent (SubmitSignatures (address (submitSignatures a))), Logged e])"
  by (simp add: submitSignaturesAll_append tryTransact_failed)

text \<open>
  Claim C8. In each of the three submission loops (commit, reveal, signature), when the
  submission of a participant fails, the exception is caught: the trace gets the
  transaction and the logged error, and the loop goes on with the participants after
  that one. Whatever the authority rejects, once the round's wait is over and the
  previous merkle root has been read, the driver sends the commit of every participant,
  then the reveal of every participant, then the signature submission of every
  participant, in the order of the list, and then goes on to finalization (or returns,
  when finalization is skipped).
\<close>

theorem runVotingRound_submission_failures:
  "(transact env (Submit1 (address (submit a))) (fst (submit1All env pre s)) = (Inl e, w') \<longrightarrow>
      submit1All env (pre @ a # post) s =
        submit1All env post
          (w', snd (submit1All env pre s) @ [Sent (Submit1 (address (submit a))), Logged e]))
   \<and> (transact env (Submit2 (address (submit a))) (fst (submit2All env pre s)) = (Inl e, w') \<longrightarrow>
      submit2All env (pre @ a # post) s =
        submit2All env post
          (w', snd (submit2All env pre s) @ [Sent (Submit2 (address (submit a))), Logged e]))
   \<and> (transact env (SubmitSignatures (address (submitSignatures a)))
         (fst (submitSignaturesAll env pre s)) = (Inl e, w') \<longrightarrow>
      submitSignaturesAll env (pre @ a # post) s =
        submitSignaturesAll env post
          (w', snd (submitSignaturesAll env pre s)
                 @ [Sent (SubmitSignatures (address (submitSignatures a))), Logged e]))
   \<and> (awaitInitialization env (votingEpochForTime es now) (fst st) = Some w0
      \<and> fst (getConfirmedMerkleRoot env FTSO_PROTOCOL_ID (votingEpochForTime es now - 2) w0)
          = Inr root \<longrightarrow>
      (\<exists>st4. runVotingRound env False accs es skipFin now st =
                Some (if skipFin then (Inr (), st4) else fakeFinalize env accs es now st4)
             \<and> sentTxs (snd st4) = sentTxs (snd st)
                  @ map (\<lambda>a. Submit1 (address (submit a))) accs
                  @ map (\<lambda>a. Submit2 (address (submit a))) accs
                  @ map (\<lambda>a. SubmitSignatures (address (submitSignatures a))) accs))"
proof -
  have run: "awaitInitialization env (votingEpochForTime es now) (fst st) = Some w0
      \<and> fst (getConfirmedMerkleRoot env FTSO_PROTOCOL_ID (votingEpochForTime es now - 2) w0)
          = Inr root \<longrightarrow>
      (\<exists>st4. runVotingRound env False accs es skipFin now st =
                Some (if skipFin then (Inr (), st4) else fakeFinalize env accs es now st4)
             \<and> sentTxs (snd st4) = sentTxs (snd st)
                  @ map (\<lambda>a. Submit1 (address (submit a))) accs
                  @ map (\<lambda>a. Submit2 (address (submit a))) accs
                  @ map (\<lambda>a. SubmitSignatures (address (submitSignatures a))) accs)"
    using runVotingRound_submit [of env es now st w0 root accs skipFin] by blast
  have commit: "transact env (Submit1 (address (submit a))) (fst (submit1All env pre s))
        = (Inl e, w') \<longrightarrow>
      submit1All env (pre @ a # post) s =
        submit1All env post
          (w', snd (submit1All env pre s) @ [Sent (Submit1 (address (submit a))), Logged e])"
    by (blast intro: submit1All_failure)
  have reveal: "transact env (Submit2 (address (submit a))) (fst (submit2All env pre s))
        = (Inl e, w') \<longrightarrow>
      submit2All env (pre @ a # post) s =
        submit2All env post
          (w', snd (submit2All env pre s) @ [Sent (Submit2 (address (submit a))), Logged e])"
    by (blast intro: submit2All_failure)
  have sign: "transact env (SubmitSignatures (address (submitSignatures a)))
         (fst (submitSignaturesAll env pre s)) = (Inl e, w') \<longrightarrow>
      submitSignaturesAll env (pre @ a # post) s =
        submitSignaturesAll env post
          (w', snd (submitSignaturesAll env pre s)
                 @ [Sent (SubmitSignatures (address (submitSignatures a))), Logged e])"
    by (blast intro: submitSignaturesAll_failure)
  show ?thesis by (intro conjI commit reveal sign run)
qed

text \<open>
  Claim C9. With \<open>skipSubmit = true\<close>, once the round's wait is over and the previous
  merkle root has been read, the driver sends and logs nothing before finalization,
  then runs \<open>fakeFinalize\<close> unless \<open>skipFinalisation\<close> is set; the whole run adds no
  commit, reveal or signature submission to the trace.
\<close>

theorem runVotingRound_skipSubmit:
  "awaitInitialization env (votingEpochForTime es now) (fst st) = Some w0
   \<and> getConfirmedMerkleRoot env FTSO_PROTOCOL_ID (votingEpochForTime es now - 2) w0 = (Inr root, w1)
   \<longrightarrow>
   (\<exists>st'. snd st' = snd st
      \<and> runVotingRound env True accs es skipFin now st =
          Some (if skipFin then (Inr (), st') else fakeFinalize env accs es now st'))
   \<and> (\<exists>r st''. runVotingRound env True accs es skipFin now st = Some (r, st'')
         \<and> filter isSubmission (sentTxs (snd st'')) = filter isSubmission (sentTxs (snd st)))"
proof (intro impI, elim conjE)
  assume a: "awaitInitialization env (votingEpochForTime es now) (fst st) = Some w0"
    and g: "getConfirmedMerkleRoot env FTSO_PROTOCOL_ID (votingEpochForTime es now - 2) w0 = (Inr root, w1)"
  let ?st' = "sleepUntil env (votingEpochStartMs es (votingEpochForTime es now + 1)
                     + (votingEpochDurationSec es * 1000) div 2) (w1, snd st)"
  have tr: "snd ?st' = snd st" by (simp add: sleepUntil_trace)
  have run: "runVotingRound env True accs es skipFin now st =
          Some (if skipFin then (Inr (), ?st') else fakeFinalize env accs es now ?st')"
    using runVotingRound_skip [OF a g] by simp
  have one: "\<exists>st'. snd st' = snd st
      \<and> runVotingRound env True accs es skipFin now st =
          Some (if skipFin then (Inr (), st') else fakeFinalize env accs es now st')"
    using tr run by blast
  have two: "\<exists>r st''. runVotingRound env True accs es skipFin now st = Some (r, st'')
         \<and> filter isSubmission (sentTxs (snd st'')) = filter isSubmission (sentTxs (snd st))"
  proof (cases skipFin)
    case True
    with run tr show ?thesis by simp
  next
    case False
    obtain r st'' where f: "fakeFinalize env accs es now ?st' = (r, st'')"
      by (cases "fakeFinalize env accs es now ?st'")
    have "filter isSubmission (sentTxs (snd st'')) = filter isSubmission (sentTxs (snd ?st'))"
      using fakeFinalize_no_submission [of env accs es now ?st'] by (simp only: f snd_conv)
    with False run f tr show ?thesis by simp
  qed
  from one two show "(\<exists>st'. snd st' = snd st
      \<and> runVotingRound env True accs es skipFin now st =
          Some (if skipFin then (Inr (), st') else fakeFinalize env accs es now st'))
   \<and> (\<exists>r st''. runVotingRound env True accs es skipFin now st = Some (r, st'')
         \<and> filter isSubmission (sentTxs (snd st'')) = filter isSubmission (sentTxs (snd st)))"
    by blast
qed

lemma demoEnv_sel:
  "readEvents demoEnv w = demoStore"
  "readSigningPolicies demoEnv w = [2 \<mapsto> demoPolicy]"
  "dateNow demoEnv w = 0"
  "sleep demoEnv ms w = (Suc (fst w), snd w)"
  "transact demoEnv = demoTransact"
  "getCurrentRewardEpochId demoEnv w = (Inr 1, w)"
  "getCurrentRandomWithQuality demoEnv w = (Inr (42, True), w)"
  "toSigningPolicyHash demoEnv epoch w = (Inr ''0xhash'', w)"
  "getConfirmedMerkleRoot demoEnv protocol round w = (Inr ''0xroot'', w)"
  "keccak256 demoEnv t = ''0x'' @ t"
  "encodeUint24Address demoEnv epoch a = numberToString epoch @ a"
  "accountsSign demoEnv h k = h @ ''/'' @ k"
  "hashMessage demoEnv = msgMerkleRoot"
  "signMessageHash demoEnv h k i = k @ ''#'' @ numberToString (int i)"
  "encodeRelayMessage demoEnv m = ''0x'' @ concat (relaySignatures m)"
  "relayAddress demoEnv = ''0xrelay''"
  by (simp_all add: demoEnv_def)

lemma demoEpochSettings_sel:
  "votingEpochForTime demoEpochSettings ms = ms div 1000 div 20"
  "rewardEpochForTime demoEpochSettings ms = ms div 1000 div 100"
  "votingEpochStartMs demoEpochSettings r = r * 20 * 1000"
  "votingEpochDurationSec demoEpochSettings = 20"
  by (simp_all add: demoEpochSettings_def)

lemma demo_await: "awaitInitialization demoEnv (votingEpochForTime demoEpochSettings 250000) (0, 0)
    = Some (0, 0)"
  unfolding awaitInitialization_def
  by (rule waitWhile_exit) (simp add: demoEnv_sel demoStore_def demoEpochSettings_sel)

lemma demo_finalize:
  "fakeFinalize demoEnv demoAccounts demoEpochSettings 250000 (w, tr) =
     (Inr (), (w, tr @ [Sent (Relay ''0xAA'' ''0xrelay'' ''0xrelay()kA#0kB#1kC#2'')]))"
  by (simp add: fakeFinalize_def Let_def demoEnv_sel demoEpochSettings_sel demoPolicy_def
        extractSigningPolicy_def demoArgs_def demoAccounts_def mkAccount_def
        finalizationSignatures_def generateSignatures_def findByVoter_def
        toLowerCase_def toLowerChar_def upt_rec [of 0] upt_rec [of 1] upt_rec [of 2]
        numberToString_def RELAY_SELECTOR_def tryTransact_def demoTransact_def)

lemma demo_run_submit:
  "runVotingRound demoEnv False demoAccounts demoEpochSettings False 250000 ((0, 0), []) =
     Some (Inr (), ((2, 0),
       [Sent (Submit1 ''0xSA''), Sent (Submit1 ''0xSB''), Logged (Error ''submit1 reverted''),
        Sent (Submit1 ''0xSC''),
        Sent (Submit2 ''0xSA''), Logged (Error ''submit2 reverted''), Sent (Submit2 ''0xSB''),
        Sent (Submit2 ''0xSC''),
        Sent (SubmitSignatures ''0xGA''), Sent (SubmitSignatures ''0xGB''),
        Sent (SubmitSignatures ''0xGC''), Logged (Error ''submitSignatures reverted''),
        Sent (Relay ''0xAA'' ''0xrelay'' ''0xrelay()kA#0kB#1kC#2'')]))"
proof -
  have c: "submit1All demoEnv demoAccounts (w, []) = (w,
       [Sent (Submit1 ''0xSA''), Sent (Submit1 ''0xSB''), Logged (Error ''submit1 reverted''),
        Sent (Submit1 ''0xSC'')])" for w
    by (simp add: demoAccounts_def mkAccount_def tryTransact_def demoEnv_sel demoTransact_def)
  have r: "submit2All demoEnv demoAccounts (w, tr) = (w, tr @
       [Sent (Submit2 ''0xSA''), Logged (Error ''submit2 reverted''), Sent (Submit2 ''0xSB''),
        Sent (Submit2 ''0xSC'')])" for w tr
    by (simp add: demoAccounts_def mkAccount_def tryTransact_def demoEnv_sel demoTransact_def)
  have g: "submitSignaturesAll demoEnv demoAccounts (w, tr) = (w, tr @
       [Sent (SubmitSignatures ''0xGA''), Sent (SubmitSignatures ''0xGB''),
        Sent (SubmitSignatures ''0xGC''), Logged (Error ''submitSignatures reverted'')])" for w tr
    by (simp add: demoAccounts_def mkAccount_def tryTransact_def demoEnv_sel demoTransact_def)
  have sl: "sleepUntil demoEnv t (w, tr) = ((Suc (fst w), snd w), tr)" for t w tr
    by (simp add: sleepUntil_def demoEnv_sel)
  show ?thesis
    by (simp add: runVotingRound_def Let_def demo_await demoEnv_sel c sl r g demo_finalize
          numeral_2_eq_2)
qed

lemma demo_run_skip:
  "runVotingRound demoEnv True demoAccounts demoEpochSettings False 250000 ((0, 0), []) =
     Some (Inr (), ((1, 0), [Sent (Relay ''0xAA'' ''0xrelay'' ''0xrelay()kA#0kB#1kC#2'')]))"
  "runVotingRound demoEnv True demoAccounts demoEpochSettings True 250000 ((0, 0), []) =
     Some (Inr (), ((1, 0), []))"
  by (simp_all add: runVotingRound_def Let_def demo_await demoEnv_sel sleepUntil_def demo_finalize)

lemma demo_submit1:
  "submit1All demoEnv [mkAccount ''A''] (w, tr) = (w, tr @ [Sent (Submit1 ''0xSA'')])"
  "submit1All demoEnv [mkAccount ''C''] (w, tr) = (w, tr @ [Sent (Submit1 ''0xSC'')])"
  by (simp_all add: mkAccount_def tryTransact_def demoEnv_sel demoTransact_def)

lemma demo_submit2:
  "submit2All demoEnv [mkAccount ''B'', mkAccount ''C''] (w, tr) =
     (w, tr @ [Sent (Submit2 ''0xSB''), Sent (Submit2 ''0xSC'')])"
  by (simp add: mkAccount_def tryTransact_def demoEnv_sel demoTransact_def)

lemma demo_submitSignatures:
  "submitSignaturesAll demoEnv [mkAccount ''A'', mkAccount ''B''] (w, tr) =
     (w, tr @ [Sent (SubmitSignatures ''0xGA''), Sent (SubmitSignatures ''0xGB'')])"
  by (simp add: mkAccount_def tryTransact_def demoEnv_sel demoTransact_def)

lemma demo_rejections:
  "transact demoEnv (Submit1 (address (submit (mkAccount ''B'')))) w =
     (Inl (Error ''submit1 reverted''), w)"
  "transact demoEnv (Submit2 (address (submit (mkAccount ''A'')))) w =
     (Inl (Error ''submit2 reverted''), w)"
  "transact demoEnv (SubmitSignatures (address (submitSignatures (mkAccount ''C'')))) w =
     (Inl (Error ''submitSignatures reverted''), w)"
  by (simp_all add: mkAccount_def demoEnv_sel demoTransact_def)

text \<open>
  Claim C1. The claim has the driver wait while the round is not yet initialized
  (\<open>votingRoundId > latestInitializedRound()\<close>). The loop of the source tests
  \<open>votingRoundId < events.initializedVotingRound\<close> instead. With the store at round
  12, the driver of round 13, which is not initialized, leaves the loop at once without
  a single sleep and goes through commit, reveal and signature submission; the driver
  of round 11, which is initialized, never leaves the loop, as the store does not go
  back, and never returns.
\<close>

theorem awaitInitialization_inverted:
  "initializedVotingRound (readEvents demoEnv (0, 0)) = 12
   \<and> awaitInitialization demoEnv 13 (0, 0) = Some (0, 0)
   \<and> awaitInitialization demoEnv 11 (0, 0) = None
   \<and> votingEpochForTime demoEpochSettings 260000 = 13
   \<and> runVotingRound demoEnv False demoAccounts demoEpochSettings True 260000 ((0, 0), []) =
       Some (Inr (), ((2, 0),
         [Sent (Submit1 ''0xSA''), Sent (Submit1 ''0xSB''), Logged (Error ''submit1 reverted''),
          Sent (Submit1 ''0xSC''),
          Sent (Submit2 ''0xSA''), Logged (Error ''submit2 reverted''), Sent (Submit2 ''0xSB''),
          Sent (Submit2 ''0xSC''),
          Sent (SubmitSignatures ''0xGA''), Sent (SubmitSignatures ''0xGB''),
          Sent (SubmitSignatures ''0xGC''), Logged (Error ''submitSignatures reverted'')]))
   \<and> votingEpochForTime demoEpochSettings 220000 = 11
   \<and> runVotingRound demoEnv False demoAccounts demoEpochSettings True 220000 ((0, 0), []) = None"
proof -
  have early: "awaitInitialization demoEnv 13 (0, 0) = Some (0, 0)"
    unfolding awaitInitialization_def by (rule waitWhile_exit) (simp add: demo_store)
  have stuck: "awaitInitialization demoEnv 11 (0, 0) = None"
    unfolding awaitInitialization_def by (rule waitWhile_stuck) (simp_all add: demo_store)
  have c: "submit1All demoEnv demoAccounts (w, []) = (w,
       [Sent (Submit1 ''0xSA''), Sent (Submit1 ''0xSB''), Logged (Error ''submit1 reverted''),
        Sent (Submit1 ''0xSC'')])" for w
    by (simp add: demoAccounts_def mkAccount_def tryTransact_def demoEnv_sel demoTransact_def)
  have r: "submit2All demoEnv demoAccounts (w, tr) = (w, tr @
       [Sent (Submit2 ''0xSA''), Logged (Error ''submit2 reverted''), Sent (Submit2 ''0xSB''),
        Sent (Submit2 ''0xSC'')])" for w tr
    by (simp add: demoAccounts_def mkAccount_def tryTransact_def demoEnv_sel demoTransact_def)
  have g: "submitSignaturesAll demoEnv demoAccounts (w, tr) = (w, tr @
       [Sent (SubmitSignatures ''0xGA''), Sent (SubmitSignatures ''0xGB''),
        Sent (SubmitSignatures ''0xGC''), Logged (Error ''submitSignatures reverted'')])" for w tr
    by (simp add: demoAccounts_def mkAccount_def tryTransact_def demoEnv_sel demoTransact_def)
  have sl: "sleepUntil demoEnv t (w, tr) = ((Suc (fst w), snd w), tr)" for t w tr
    by (simp add: sleepUntil_def demoEnv_sel)
  have r13: "votingEpochForTime demoEpochSettings 260000 = 13"
    and r11: "votingEpochForTime demoEpochSettings 220000 = 11"
    by (simp_all add: demoEpochSettings_sel)
  have run13: "runVotingRound demoEnv False demoAccounts demoEpochSettings True 260000 ((0, 0), []) =
       Some (Inr (), ((2, 0),
         [Sent (Submit1 ''0xSA''), Sent (Submit1 ''0xSB''), Logged (Error ''submit1 reverted''),
          Sent (Submit1 ''0xSC''),
          Sent (Submit2 ''0xSA''), Logged (Error ''submit2 reverted''), Sent (Submit2 ''0xSB''),
          Sent (Submit2 ''0xSC''),
          Sent (SubmitSignatures ''0xGA''), Sent (SubmitSignatures ''0xGB''),
          Sent (SubmitSignatures ''0xGC''), Logged (Error ''submitSignatures reverted'')]))"
    by (simp add: runVotingRound_def Let_def r13 early demoEnv_sel c sl r g numeral_2_eq_2)
  have run11: "runVotingRound demoEnv False demoAccounts demoEpochSettings True 220000 ((0, 0), []) = None"
    by (simp add: runVotingRound_def Let_def r11 stuck)
  show ?thesis
    by (intro conjI demo_store early stuck r13 run13 r11 run11)
qed

text \<open>
  A round with participants A, B and C in which the authority rejects the commit of B,
  the reveal of A and the signature submission of C: all nine submissions are sent,
  the three failures are logged, and the round is finalized.
\<close>

theorem runVotingRound_submission_failures_witness:
  "submit1All demoEnv ([mkAccount ''A''] @ mkAccount ''B'' # [mkAccount ''C'']) ((0, 0), []) =
     ((0, 0), [Sent (Submit1 ''0xSA''), Sent (Submit1 ''0xSB''),
               Logged (Error ''submit1 reverted''), Sent (Submit1 ''0xSC'')])
   \<and> submit2All demoEnv ([] @ mkAccount ''A'' # [mkAccount ''B'', mkAccount ''C'']) ((0, 0), []) =
     ((0, 0), [Sent (Submit2 ''0xSA''), Logged (Error ''submit2 reverted''),
               Sent (Submit2 ''0xSB''), Sent (Submit2 ''0xSC'')])
   \<and> submitSignaturesAll demoEnv ([mkAccount ''A'', mkAccount ''B''] @ mkAccount ''C'' # [])
         ((0, 0), []) =
     ((0, 0), [Sent (SubmitSignatures ''0xGA''), Sent (SubmitSignatures ''0xGB''),
               Sent (SubmitSignatures ''0xGC''), Logged (Error ''submitSignatures reverted'')])
   \<and> (\<exists>st4. runVotingRound demoEnv False demoAccounts demoEpochSettings False 250000 ((0, 0), []) =
               Some (fakeFinalize demoEnv demoAccounts demoEpochSettings 250000 st4)
            \<and> sentTxs (snd st4) =
                [Submit1 ''0xSA'', Submit1 ''0xSB'', Submit1 ''0xSC'',
                 Submit2 ''0xSA'', Submit2 ''0xSB'', Submit2 ''0xSC'',
                 SubmitSignatures ''0xGA'', SubmitSignatures ''0xGB'', SubmitSignatures ''0xGC''])
   \<and> runVotingRound demoEnv False demoAccounts demoEpochSettings False 250000 ((0, 0), []) =
     Some (Inr (), ((2, 0),
       [Sent (Submit1 ''0xSA''), Sent (Submit1 ''0xSB''), Logged (Error ''submit1 reverted''),
        Sent (Submit1 ''0xSC''),
        Sent (Submit2 ''0xSA''), Logged (Error ''submit2 reverted''), Sent (Submit2 ''0xSB''),
        Sent (Submit2 ''0xSC''),
        Sent (SubmitSignatures ''0xGA''), Sent (SubmitSignatures ''0xGB''),
        Sent (SubmitSignatures ''0xGC''), Logged (Error ''submitSignatures reverted''),
        Sent (Relay ''0xAA'' ''0xrelay'' ''0xrelay()kA#0kB#1kC#2'')]))"
proof -
  let ?A = "mkAccount ''A''" and ?B = "mkAccount ''B''" and ?C = "mkAccount ''C''"
  have a: "awaitInitialization demoEnv (votingEpochForTime demoEpochSettings 250000)
      (fst ((0, 0), [])) = Some (0, 0)"
    by (simp add: demo_await)
  have g: "fst (getConfirmedMerkleRoot demoEnv FTSO_PROTOCOL_ID
      (votingEpochForTime demoEpochSettings 250000 - 2) (0, 0)) = Inr ''0xroot''"
    by (simp add: demoEnv_sel)
  note commit = runVotingRound_submission_failures
    [where env = demoEnv and a = ?B and pre = "[?A]" and post = "[?C]" and s = "((0, 0), [])"
       and e = "Error ''submit1 reverted''" and w' = "(0, 0)"
       and es = demoEpochSettings and now = 250000
       and st = "((0, 0), [])" and ?w0.0 = "(0, 0)" and root = "''0xroot''"
       and accs = demoAccounts and skipFin = False, THEN conjunct1]
  note reveal = runVotingRound_submission_failures
    [where env = demoEnv and a = ?A and pre = "[]" and post = "[?B, ?C]" and s = "((0, 0), [])"
       and e = "Error ''submit2 reverted''" and w' = "(0, 0)"
       and es = demoEpochSettings and now = 250000
       and st = "((0, 0), [])" and ?w0.0 = "(0, 0)" and root = "''0xroot''"
       and accs = demoAccounts and skipFin = False, THEN conjunct2, THEN conjunct1]
  note sign = runVotingRound_submission_failures
    [where env = demoEnv and a = ?C and pre = "[?A, ?B]" and post = "[]" and s = "((0, 0), [])"
       and e = "Error ''submitSignatures reverted''" and w' = "(0, 0)"
       and es = demoEpochSettings and now = 250000
       and st = "((0, 0), [])" and ?w0.0 = "(0, 0)" and root = "''0xroot''"
       and accs = demoAccounts and skipFin = False, THEN conjunct2, THEN conjunct2, THEN conjunct1]
  note run = runVotingRound_submission_failures
    [where env = demoEnv and a = ?C and pre = "[?A, ?B]" and post = "[]" and s = "((0, 0), [])"
       and e = "Error ''submitSignatures reverted''" and w' = "(0, 0)"
       and es = demoEpochSettings and now = 250000
       and st = "((0, 0), [])" and ?w0.0 = "(0, 0)" and root = "''0xroot''"
       and accs = demoAccounts and skipFin = False, THEN conjunct2, THEN conjunct2, THEN conjunct2]
  have adr: "address (submit ?B) = ''0xSB''" "address (submit ?A) = ''0xSA''"
    "address (submitSignatures ?C) = ''0xGC''"
    by (simp_all add: mkAccount_def)
  have c1: "transact demoEnv (Submit1 (address (submit ?B)))
      (fst (submit1All demoEnv [?A] ((0, 0), []))) = (Inl (Error ''submit1 reverted''), (0, 0))"
    by (simp only: demo_submit1 fst_conv demo_rejections)
  from commit c1 have "submit1All demoEnv ([?A] @ ?B # [?C]) ((0, 0), []) =
      submit1All demoEnv [?C] ((0, 0), snd (submit1All demoEnv [?A] ((0, 0), []))
        @ [Sent (Submit1 (address (submit ?B))), Logged (Error ''submit1 reverted'')])"
    by (rule mp)
  then have one: "submit1All demoEnv ([?A] @ ?B # [?C]) ((0, 0), []) =
     ((0, 0), [Sent (Submit1 ''0xSA''), Sent (Submit1 ''0xSB''),
               Logged (Error ''submit1 reverted''), Sent (Submit1 ''0xSC'')])"
    by (simp add: demo_submit1 adr del: submit1All.simps)
  have c2: "transact demoEnv (Submit2 (address (submit ?A)))
      (fst (submit2All demoEnv [] ((0, 0), []))) = (Inl (Error ''submit2 reverted''), (0, 0))"
    by (simp add: demo_rejections)
  from reveal c2 have "submit2All demoEnv ([] @ ?A # [?B, ?C]) ((0, 0), []) =
      submit2All demoEnv [?B, ?C] ((0, 0), snd (submit2All demoEnv [] ((0, 0), []))
        @ [Sent (Submit2 (address (submit ?A))), Logged (Error ''submit2 reverted'')])"
    by (rule mp)
  then have two: "submit2All demoEnv ([] @ ?A # [?B, ?C]) ((0, 0), []) =
     ((0, 0), [Sent (Submit2 ''0xSA''), Logged (Error ''submit2 reverted''),
               Sent (Submit2 ''0xSB''), Sent (Submit2 ''0xSC'')])"
    by (simp add: demo_submit2 adr del: submit2All.simps(2))
  have c3: "transact demoEnv (SubmitSignatures (address (submitSignatures ?C)))
      (fst (submitSignaturesAll demoEnv [?A, ?B] ((0, 0), []))) =
      (Inl (Error ''submitSignatures reverted''), (0, 0))"
    by (simp only: demo_submitSignatures fst_conv demo_rejections)
  from sign c3 have "submitSignaturesAll demoEnv ([?A, ?B] @ ?C # []) ((0, 0), []) =
      submitSignaturesAll demoEnv [] ((0, 0), snd (submitSignaturesAll demoEnv [?A, ?B] ((0, 0), []))
        @ [Sent (SubmitSignatures (address (submitSignatures ?C))),
           Logged (Error ''submitSignatures reverted'')])"
    by (rule mp)
  then have three: "submitSignaturesAll demoEnv ([?A, ?B] @ ?C # []) ((0, 0), []) =
     ((0, 0), [Sent (SubmitSignatures ''0xGA''), Sent (SubmitSignatures ''0xGB''),
               Sent (SubmitSignatures ''0xGC''), Logged (Error ''submitSignatures reverted'')])"
    by (simp add: demo_submitSignatures adr del: submitSignaturesAll.simps(2))
  from run a g have "\<exists>st4. runVotingRound demoEnv False demoAccounts demoEpochSettings False 250000 ((0, 0), []) =
               Some (if False then (Inr (), st4)
                     else fakeFinalize demoEnv demoAccounts demoEpochSettings 250000 st4)
            \<and> sentTxs (snd st4) = sentTxs (snd ((0::nat, 0::nat), []))
                  @ map (\<lambda>a. Submit1 (address (submit a))) demoAccounts
                  @ map (\<lambda>a. Submit2 (address (submit a))) demoAccounts
                  @ map (\<lambda>a. SubmitSignatures (address (submitSignatures a))) demoAccounts"
    by blast
  then have four: "\<exists>st4. runVotingRound demoEnv False demoAccounts demoEpochSettings False 250000 ((0, 0), []) =
               Some (fakeFinalize demoEnv demoAccounts demoEpochSettings 250000 st4)
            \<and> sentTxs (snd st4) =
                [Submit1 ''0xSA'', Submit1 ''0xSB'', Submit1 ''0xSC'',
                 Submit2 ''0xSA'', Submit2 ''0xSB'', Submit2 ''0xSC'',
                 SubmitSignatures ''0xGA'', SubmitSignatures ''0xGB'', SubmitSignatures ''0xGC'']"
    by (simp add: demoAccounts_def mkAccount_def)
  from one two three four demo_run_submit show ?thesis by (intro conjI)
qed

text \<open>The same round with \<open>skipSubmit\<close>, with and without finalization.\<close>

theorem runVotingRound_skipSubmit_witness:
  "(\<exists>r st''. runVotingRound demoEnv True demoAccounts demoEpochSettings False 250000 ((0, 0), [])
        = Some (r, st'') \<and> filter isSubmission (sentTxs (snd st'')) = [])
   \<and> runVotingRound demoEnv True demoAccounts demoEpochSettings False 250000 ((0, 0), []) =
       Some (Inr (), ((1, 0), [Sent (Relay ''0xAA'' ''0xrelay'' ''0xrelay()kA#0kB#1kC#2'')]))
   \<and> (\<exists>st'. snd st' = [] \<and>
         runVotingRound demoEnv True demoAccounts demoEpochSettings True 250000 ((0, 0), []) =
           Some (Inr (), st'))
   \<and> runVotingRound demoEnv True demoAccounts demoEpochSettings True 250000 ((0, 0), []) =
       Some (Inr (), ((1, 0), []))"
proof -
  have a: "awaitInitialization demoEnv (votingEpochForTime demoEpochSettings 250000)
      (fst ((0, 0), [])) = Some (0, 0)"
    by (simp add: demo_await)
  have g: "getConfirmedMerkleRoot demoEnv FTSO_PROTOCOL_ID
      (votingEpochForTime demoEpochSettings 250000 - 2) (0, 0) = (Inr ''0xroot'', (0, 0))"
    by (simp add: demoEnv_sel)
  note fin = runVotingRound_skipSubmit
    [where env = demoEnv and es = demoEpochSettings and now = 250000
       and st = "((0, 0), [])" and ?w0.0 = "(0, 0)" and root = "''0xroot''" and ?w1.0 = "(0, 0)"
       and accs = demoAccounts and skipFin = False]
  note nofin = runVotingRound_skipSubmit
    [where env = demoEnv and es = demoEpochSettings and now = 250000
       and st = "((0, 0), [])" and ?w0.0 = "(0, 0)" and root = "''0xroot''" and ?w1.0 = "(0, 0)"
       and accs = demoAccounts and skipFin = True]
  from fin a g have one: "\<exists>r st''. runVotingRound demoEnv True demoAccounts demoEpochSettings False
        250000 ((0, 0), []) = Some (r, st'') \<and> filter isSubmission (sentTxs (snd st'')) = []"
    by simp
  from nofin a g have two: "\<exists>st'. snd st' = [] \<and>
         runVotingRound demoEnv True demoAccounts demoEpochSettings True 250000 ((0, 0), []) =
           Some (Inr (), st')"
    by simp
  from one two demo_run_skip show ?thesis by blast
qed

section \<open>The signing policy driver\<close>

lemma registerVoter_cases:
  "transact env (registerVoterTx env nxt a) (fst st) = (Inl e, w') \<Longrightarrow>
     registerVoter env nxt a st = (Inl e, (w', snd st @ [Sent (registerVoterTx env nxt a)]))"
  "transact env (registerVoterTx env nxt a) (fst st) = (Inr logs, w') \<Longrightarrow>
     registerVoter env nxt a st = (Inr (), (w', snd st @ [Sent (registerVoterTx env nxt a)]))"
  by (simp_all add: registerVoter_def Let_def)

lemma registerVoter_trace:
  "snd (snd (registerVoter env nxt a st)) = snd st @ [Sent (registerVoterTx env nxt a)]"
  by (cases "transact env (registerVoterTx env nxt a) (fst st)")
     (auto simp: registerVoter_def Let_def split: sum.splits)

lemma registerVoters_append:
  "registerVoters env skip nxt (pre @ rest) st =
     (case registerVoters env skip nxt pre st of
        (Inl e, st1) \<Rightarrow> (Inl e, st1)
      | (Inr u, st1) \<Rightarrow> registerVoters env skip nxt rest st1)"
proof (induction pre arbitrary: st)
  case Nil
  show ?case by simp
next
  case (Cons a pre)
  show ?case
  proof (cases "skipped skip a")
    case True
    then show ?thesis by (simp add: Cons.IH)
  next
    case False
    obtain r st' where r: "registerVoter env nxt a st = (r, st')"
      by (cases "registerVoter env nxt a st")
    show ?thesis
      by (cases r) (simp_all add: False r Cons.IH)
  qed
qed

lemma registerVoters_trace:
  "\<exists>txs. snd (snd (registerVoters env skip nxt accs st)) = snd st @ map Sent txs
     \<and> prefix txs (map (registerVoterTx env nxt) (filter (\<lambda>a. \<not> skipped skip a) accs))
     \<and> (fst (registerVoters env skip nxt accs st) = Inr () \<longrightarrow>
          txs = map (registerVoterTx env nxt) (filter (\<lambda>a. \<not> skipped skip a) accs))"
proof (induction accs arbitrary: st)
  case Nil
  show ?case by simp
next
  case (Cons a accs)
  show ?case
  proof (cases "skipped skip a")
    case True
    with Cons.IH [of st] show ?thesis by simp
  next
    case False
    obtain r st' where r: "registerVoter env nxt a st = (r, st')"
      by (cases "registerVoter env nxt a st")
    have tr: "snd st' = snd st @ [Sent (registerVoterTx env nxt a)]"
      using registerVoter_trace [of env nxt a st] by (simp add: r)
    show ?thesis
    proof (cases r)
      case (Inl e)
      have c1: "snd (snd (registerVoters env skip nxt (a # accs) st)) =
          snd st @ map Sent [registerVoterTx env nxt a]"
        by (simp add: False r Inl tr)
      have c2: "prefix [registerVoterTx env nxt a]
          (map (registerVoterTx env nxt) (filter (\<lambda>a. \<not> skipped skip a) (a # accs)))"
        by (simp add: False)
      have c3: "fst (registerVoters env skip nxt (a # accs) st) = Inr () \<longrightarrow>
          [registerVoterTx env nxt a] =
            map (registerVoterTx env nxt) (filter (\<lambda>a. \<not> skipped skip a) (a # accs))"
        by (simp add: False r Inl)
      show ?thesis
        by (rule exI [of _ "[registerVoterTx env nxt a]"]) (intro conjI c1 c2 c3)
    next
      case (Inr u)
      from Cons.IH [of st'] obtain txs where
        t: "snd (snd (registerVoters env skip nxt accs st')) = snd st' @ map Sent txs"
        and p: "prefix txs (map (registerVoterTx env nxt) (filter (\<lambda>a. \<not> skipped skip a) accs))"
        and f: "fst (registerVoters env skip nxt accs st') = Inr () \<longrightarrow>
          txs = map (registerVoterTx env nxt) (filter (\<lambda>a. \<not> skipped skip a) accs)"
        by blast
      have c1: "snd (snd (registerVoters env skip nxt (a # accs) st)) =
          snd st @ map Sent (registerVoterTx env nxt a # txs)"
        by (simp add: False r Inr t tr)
      have c2: "prefix (registerVoterTx env nxt a # txs)
          (map (registerVoterTx env nxt) (filter (\<lambda>a. \<not> skipped skip a) (a # accs)))"
        using p by (simp add: False)
      have c3: "fst (registerVoters env skip nxt (a # accs) st) = Inr () \<longrightarrow>
          registerVoterTx env nxt a # txs =
            map (registerVoterTx env nxt) (filter (\<lambda>a. \<not> skipped skip a) (a # accs))"
        using f by (simp add: False r Inr)
      show ?thesis
        by (rule exI [of _ "registerVoterTx env nxt a # txs"]) (intro conjI c1 c2 c3)
    qed
  qed
qed

lemma registerVoters_failure:
  assumes "registerVoters env skip nxt pre st = (Inr (), st1)"
    and "\<not> skipped skip a"
    and "transact env (registerVoterTx env nxt a) (fst st1) = (Inl e, w2)"
  shows "registerVoters env skip nxt (pre @ a # post) st =
     (Inl e, (w2, snd st1 @ [Sent (registerVoterTx env nxt a)]))"
  by (simp add: registerVoters_append assms registerVoter_cases)

lemma defineNextSigningPolicy_registration_throws:
  assumes "awaitVotePowerBlock env st = Some (Inr rewardEpoch, st4)"
    and "registerVoters env skipReg (rewardEpoch + 1) accs st4 = (Inl e, st5)"
  shows "defineNextSigningPolicy env skipReg skipSign gov accs st = Some (Inl e, st5)"
  by (simp add: defineNextSigningPolicy_def Let_def assms)

lemma sign_rejected:
  "\<not> skipped skip a \<Longrightarrow> transact env (signTx env gov nxt h a) (fst st) = (Inl e, w') \<Longrightarrow>
     signNewSigningPolicies env skip gov nxt h (a # rest) st =
       (Inl e, (w', snd st @ [Sent (signTx env gov nxt h a)]))"
  by (simp add: Let_def)

lemma sign_unacknowledged:
  "\<not> skipped skip a \<Longrightarrow> transact env (signTx env gov nxt h a) (fst st) = (Inr logs, w') \<Longrightarrow>
     \<forall>l \<in> set logs. event l \<noteq> ''SigningPolicySigned'' \<Longrightarrow>
     signNewSigningPolicies env skip gov nxt h (a # rest) st =
       (Inl (Error ''Expected signing policy to be signed''),
        (w', snd st @ [Sent (signTx env gov nxt h a)]))"
  by (cases logs) (simp_all add: Let_def)

lemma sign_first_not_ack:
  "\<not> skipped skip a \<Longrightarrow> transact env (signTx env gov nxt h a) (fst st) = (Inr (l # ls), w') \<Longrightarrow>
     event l \<noteq> ''SigningPolicySigned'' \<Longrightarrow>
     signNewSigningPolicies env skip gov nxt h (a # rest) st =
       (Inl (Error ''Expected signing policy to be signed''),
        (w', snd st @ [Sent (signTx env gov nxt h a)]))"
  by (simp add: Let_def)

lemma sign_threshold:
  "\<not> skipped skip a \<Longrightarrow> transact env (signTx env gov nxt h a) (fst st) = (Inr (l # ls), w') \<Longrightarrow>
     event l = ''SigningPolicySigned'' \<Longrightarrow> thresholdReached (args l) \<Longrightarrow>
     signNewSigningPolicies env skip gov nxt h (a # rest) st =
       (Inr True, (w', snd st @ [Sent (signTx env gov nxt h a)]))"
  by (simp add: Let_def)

lemma sign_continue:
  "\<not> skipped skip a \<Longrightarrow> transact env (signTx env gov nxt h a) (fst st) = (Inr (l # ls), w') \<Longrightarrow>
     event l = ''SigningPolicySigned'' \<Longrightarrow> \<not> thresholdReached (args l) \<Longrightarrow>
     signNewSigningPolicies env skip gov nxt h (a # rest) st =
       signNewSigningPolicies env skip gov nxt h rest (w', snd st @ [Sent (signTx env gov nxt h a)])"
  by (simp add: Let_def)

lemma sign_skip:
  "skipped skip a \<Longrightarrow>
     signNewSigningPolicies env skip gov nxt h (a # rest) st =
       signNewSigningPolicies env skip gov nxt h rest st"
  by simp

text \<open>One step of the loop: either it stops, or it goes on from a state that has the
  transaction appended.\<close>

lemma sign_step_cases:
  assumes "\<not> skipped skip a"
  obtains (stop) r w' where
      "\<And>rest. signNewSigningPolicies env skip gov nxt h (a # rest) st =
         (r, (w', snd st @ [Sent (signTx env gov nxt h a)]))" "r \<noteq> Inr False"
    | (continue) w' where
      "\<And>rest. signNewSigningPolicies env skip gov nxt h (a # rest) st =
         signNewSigningPolicies env skip gov nxt h rest (w', snd st @ [Sent (signTx env gov nxt h a)])"
proof -
  obtain res w' where t: "transact env (signTx env gov nxt h a) (fst st) = (res, w')"
    by (cases "transact env (signTx env gov nxt h a) (fst st)")
  show thesis
  proof (cases res)
    case (Inl e)
    with t assms stop [of "Inl e" w'] show ?thesis by (simp add: sign_rejected)
  next
    case (Inr logs)
    show ?thesis
    proof (cases logs)
      case Nil
      with t Inr assms stop [of "Inl (Error ''Expected signing policy to be signed'')" w']
      show ?thesis by (simp add: sign_unacknowledged)
    next
      case (Cons l ls)
      show ?thesis
      proof (cases "event l = ''SigningPolicySigned''")
        case False
        with t Inr Cons assms stop [of "Inl (Error ''Expected signing policy to be signed'')" w']
        show ?thesis by (simp add: sign_first_not_ack)
      next
        case True
        show ?thesis
        proof (cases "thresholdReached (args l)")
          case True
          with t Inr Cons assms \<open>event l = ''SigningPolicySigned''\<close> stop [of "Inr True" w']
          show ?thesis by (simp add: sign_threshold)
        next
          case False
          with t Inr Cons assms \<open>event l = ''SigningPolicySigned''\<close> continue [of w']
          show ?thesis by (simp add: sign_continue)
        qed
      qed
    qed
  qed
qed

lemma signNewSigningPolicies_append:
  "signNewSigningPolicies env skip gov nxt h (pre @ rest) st =
     (case signNewSigningPolicies env skip gov nxt h pre st of
        (Inl e, st1) \<Rightarrow> (Inl e, st1)
      | (Inr b, st1) \<Rightarrow>
          if b then (Inr True, st1) else signNewSigningPolicies env skip gov nxt h rest st1)"
proof (induction pre arbitrary: st)
  case Nil
  show ?case by simp
next
  case (Cons a pre)
  show ?case
  proof (cases "skipped skip a")
    case True
    then show ?thesis by (simp add: Cons.IH)
  next
    case False
    then show ?thesis
    proof (cases rule: sign_step_cases [of skip a env gov nxt h st])
      case (stop r w')
      have "signNewSigningPolicies env skip gov nxt h ((a # pre) @ rest) st =
          (r, (w', snd st @ [Sent (signTx env gov nxt h a)]))"
        using stop(1) [of "pre @ rest"] by simp
      moreover have "signNewSigningPolicies env skip gov nxt h (a # pre) st =
          (r, (w', snd st @ [Sent (signTx env gov nxt h a)]))"
        by (rule stop(1))
      ultimately show ?thesis
        using stop(2) by (cases r) auto
    next
      case (continue w')
      have "signNewSigningPolicies env skip gov nxt h ((a # pre) @ rest) st =
          signNewSigningPolicies env skip gov nxt h (pre @ rest)
            (w', snd st @ [Sent (signTx env gov nxt h a)])"
        using continue [of "pre @ rest"] by simp
      then show ?thesis
        by (simp only: Cons.IH continue [of pre])
    qed
  qed
qed

lemma signNewSigningPolicies_trace:
  "\<exists>txs. snd (snd (signNewSigningPolicies env skip gov nxt h accs st)) = snd st @ map Sent txs
     \<and> prefix txs (map (signTx env gov nxt h) (filter (\<lambda>a. \<not> skipped skip a) accs))
     \<and> (fst (signNewSigningPolicies env skip gov nxt h accs st) = Inr False \<longrightarrow>
          txs = map (signTx env gov nxt h) (filter (\<lambda>a. \<not> skipped skip a) accs))"
proof (induction accs arbitrary: st)
  case Nil
  show ?case by simp
next
  case (Cons a accs)
  show ?case
  proof (cases "skipped skip a")
    case True
    with Cons.IH [of st] show ?thesis by simp
  next
    case False
    then show ?thesis
    proof (cases rule: sign_step_cases [of skip a env gov nxt h st])
      case (stop r w')
      have c1: "snd (snd (signNewSigningPolicies env skip gov nxt h (a # accs) st)) =
          snd st @ map Sent [signTx env gov nxt h a]"
        by (simp add: stop(1) del: signNewSigningPolicies.simps)
      have c2: "prefix [signTx env gov nxt h a]
          (map (signTx env gov nxt h) (filter (\<lambda>a. \<not> skipped skip a) (a # accs)))"
        by (simp add: False)
      have c3: "fst (signNewSigningPolicies env skip gov nxt h (a # accs) st) = Inr False \<longrightarrow>
          [signTx env gov nxt h a] =
            map (signTx env gov nxt h) (filter (\<lambda>a. \<not> skipped skip a) (a # accs))"
        using stop(2) by (simp add: stop(1) del: signNewSigningPolicies.simps)
      show ?thesis
        by (rule exI [of _ "[signTx env gov nxt h a]"]) (intro conjI c1 c2 c3)
    next
      case (continue w')
      let ?st' = "(w', snd st @ [Sent (signTx env gov nxt h a)])"
      from Cons.IH [of ?st'] obtain txs where
        t: "snd (snd (signNewSigningPolicies env skip gov nxt h accs ?st')) = snd ?st' @ map Sent txs"
        and p: "prefix txs (map (signTx env gov nxt h) (filter (\<lambda>a. \<not> skipped skip a) accs))"
        and f: "fst (signNewSigningPolicies env skip gov nxt h accs ?st') = Inr False \<longrightarrow>
          txs = map (signTx env gov nxt h) (filter (\<lambda>a. \<not> skipped skip a) accs)"
        by blast
      have c1: "snd (snd (signNewSigningPolicies env skip gov nxt h (a # accs) st)) =
          snd st @ map Sent (signTx env gov nxt h a # txs)"
        using t by (simp add: continue del: signNewSigningPolicies.simps)
      have c2: "prefix (signTx env gov nxt h a # txs)
          (map (signTx env gov nxt h) (filter (\<lambda>a. \<not> skipped skip a) (a # accs)))"
        using p by (simp add: False)
      have c3: "fst (signNewSigningPolicies env skip gov nxt h (a # accs) st) = Inr False \<longrightarrow>
          signTx env gov nxt h a # txs =
            map (signTx env gov nxt h) (filter (\<lambda>a. \<not> skipped skip a) (a # accs))"
        using f by (simp add: continue False del: signNewSigningPolicies.simps)
      show ?thesis
        by (rule exI [of _ "signTx env gov nxt h a # txs"]) (intro conjI c1 c2 c3)
    qed
  qed
qed

lemma sign_threshold_after:
  assumes "signNewSigningPolicies env skip gov nxt h pre st = (Inr False, st1)"
    and "\<not> skipped skip a"
    and "transact env (signTx env gov nxt h a) (fst st1) = (Inr (l # ls), w2)"
    and "event l = ''SigningPolicySigned''" and "thresholdReached (args l)"
  shows "signNewSigningPolicies env skip gov nxt h (pre @ a # post) st =
     (Inr True, (w2, snd st1 @ [Sent (signTx env gov nxt h a)]))"
  by (simp only: signNewSigningPolicies_append assms(1) prod.case sum.case if_False
        sign_threshold [OF assms(2-5)])

lemma sign_unacknowledged_after:
  assumes "signNewSigningPolicies env skip gov nxt h pre st = (Inr False, st1)"
    and "\<not> skipped skip a"
    and "transact env (signTx env gov nxt h a) (fst st1) = (Inr logs, w2)"
    and "\<forall>l \<in> set logs. event l \<noteq> ''SigningPolicySigned''"
  shows "signNewSigningPolicies env skip gov nxt h (pre @ a # post) st =
     (Inl (Error ''Expected signing policy to be signed''),
      (w2, snd st1 @ [Sent (signTx env gov nxt h a)]))"
  by (simp only: signNewSigningPolicies_append assms(1) prod.case sum.case if_False
        sign_unacknowledged [OF assms(2-4)])

lemma defineNextSigningPolicy_ratification:
  assumes "awaitVotePowerBlock env st = Some (Inr rewardEpoch, st4)"
    and "registerVoters env skipReg (rewardEpoch + 1) accs st4 = (Inr (), st5)"
    and "awaitEvent env rewardEpoch ''SigningPolicyInitialized'' (fst st5) = Some w6"
    and "toSigningPolicyHash env (rewardEpoch + 1) w6 = (Inr h, w7)"
  shows "defineNextSigningPolicy env skipReg skipSign gov accs st =
     (case signNewSigningPolicies env skipSign (address gov) (rewardEpoch + 1) h accs
             (w7, snd st5) of
        (Inl e, st8) \<Rightarrow> Some (Inl e, st8)
      | (Inr b, st8) \<Rightarrow> Some (Inr (), st8))"
  by (simp add: defineNextSigningPolicy_def Let_def assms)

lemma demo_awaitEvent:
  "awaitEvent demoEnv 1 ''RandomAcquisitionStarted'' w = Some w"
  "awaitEvent demoEnv 1 ''VotePowerBlockSelected'' w = Some w"
  "awaitEvent demoEnv 1 ''SigningPolicyInitialized'' w = Some w"
  unfolding awaitEvent_def
  by (rule waitWhile_exit, simp add: demoEnv_sel demoStore_def hasEvent_def)+

lemma demo_prelude: "awaitVotePowerBlock demoEnv (w, tr) = Some (Inr 1, (w, tr))"
  by (simp add: awaitVotePowerBlock_def demoEnv_sel demo_awaitEvent)

lemma demo_registerVoterTx:
  "registerVoterTx demoEnv 2 (mkAccount n) =
     RegisterVoter (''0xI'' @ n) (''0x20xI'' @ n @ ''/k'' @ n) (''0xG'' @ n)"
  by (simp add: registerVoterTx_def Let_def demoEnv_sel mkAccount_def numberToString_def)

lemma demo_signTx:
  "signTx demoEnv g 2 ''0xhash'' (mkAccount n) =
     SignNewSigningPolicy 2 ''0xhash'' (''0xhash/k'' @ n) g"
  by (simp add: signTx_def Let_def demoEnv_sel mkAccount_def)

lemma demo_skipped:
  "\<not> skipped {} a"
  "skipped {''0xaa''} (mkAccount ''A'')"
  "\<not> skipped {''0xaa''} (mkAccount ''B'')"
  "\<not> skipped {''0xaa''} (mkAccount ''C'')"
  "\<not> skipped {''0xaa''} (mkAccount ''D'')"
  by (simp_all add: skipped_def mkAccount_def toLowerCase_def toLowerChar_def)

lemma demo_register_B:
  "registerVoters demoEnv {} 2 [mkAccount ''B''] (w, tr) =
     (Inr (), (w, tr @ [Sent (RegisterVoter ''0xIB'' ''0x20xIB/kB'' ''0xGB'')]))"
  by (simp add: demo_skipped registerVoter_def Let_def demo_registerVoterTx demoEnv_sel
        demoTransact_def)

lemma demo_register_A_rejected:
  "transact demoEnv (registerVoterTx demoEnv 2 (mkAccount ''A'')) w =
     (Inl (Error ''registerVoter reverted''), w)"
  by (simp add: demo_registerVoterTx demoEnv_sel demoTransact_def)

lemma demo_register_fails:
  "registerVoters demoEnv {} 2 demoAccounts ((0, 0), []) =
     (Inl (Error ''registerVoter reverted''),
      ((0, 0), [Sent (RegisterVoter ''0xIA'' ''0x20xIA/kA'' ''0xGA'')]))"
  by (simp add: demoAccounts_def demo_skipped registerVoter_def Let_def demo_registerVoterTx
        demoEnv_sel demoTransact_def)

lemma demo_register_skipA:
  "registerVoters demoEnv {''0xaa''} 2 demoAccounts (w, tr) =
     (Inr (), (w, tr @ [Sent (RegisterVoter ''0xIB'' ''0x20xIB/kB'' ''0xGB''),
                        Sent (RegisterVoter ''0xIC'' ''0x20xIC/kC'' ''0xGC'')]))"
  by (simp add: demoAccounts_def demo_skipped registerVoter_def Let_def demo_registerVoterTx
        demoEnv_sel demoTransact_def)

text \<open>
  Claim C4, as the code has it. The registration loop takes the participants that are
  not in the skip set in the order given and submits a registration request for the
  next reward epoch for each, as long as every earlier request succeeded; when none
  fails, every one of them is registered. The loop writes no log entry. A request that
  fails is not caught: the loop stops there with the exception, the participants after
  the failing one are not registered, and \<open>defineNextSigningPolicy\<close> ends with that
  exception.
\<close>

theorem registration_stops_at_failure:
  "(\<exists>txs. snd (snd (registerVoters env skip nxt accs st)) = snd st @ map Sent txs
      \<and> prefix txs (map (registerVoterTx env nxt) (filter (\<lambda>a. \<not> skipped skip a) accs))
      \<and> (fst (registerVoters env skip nxt accs st) = Inr () \<longrightarrow>
           txs = map (registerVoterTx env nxt) (filter (\<lambda>a. \<not> skipped skip a) accs)))
   \<and> (registerVoters env skip nxt pre st = (Inr (), st1) \<and> \<not> skipped skip a
        \<and> transact env (registerVoterTx env nxt a) (fst st1) = (Inl e, w2) \<longrightarrow>
      registerVoters env skip nxt (pre @ a # post) st =
        (Inl e, (w2, snd st1 @ [Sent (registerVoterTx env nxt a)])))
   \<and> (awaitVotePowerBlock env st0 = Some (Inr rewardEpoch, st4)
        \<and> registerVoters env skip (rewardEpoch + 1) accs st4 = (Inl e', st5) \<longrightarrow>
      defineNextSigningPolicy env skip skipSign g accs st0 = Some (Inl e', st5))"
proof -
  have order: "\<exists>txs. snd (snd (registerVoters env skip nxt accs st)) = snd st @ map Sent txs
      \<and> prefix txs (map (registerVoterTx env nxt) (filter (\<lambda>a. \<not> skipped skip a) accs))
      \<and> (fst (registerVoters env skip nxt accs st) = Inr () \<longrightarrow>
           txs = map (registerVoterTx env nxt) (filter (\<lambda>a. \<not> skipped skip a) accs))"
    by (rule registerVoters_trace)
  have stop: "registerVoters env skip nxt pre st = (Inr (), st1) \<and> \<not> skipped skip a
        \<and> transact env (registerVoterTx env nxt a) (fst st1) = (Inl e, w2) \<longrightarrow>
      registerVoters env skip nxt (pre @ a # post) st =
        (Inl e, (w2, snd st1 @ [Sent (registerVoterTx env nxt a)]))"
    by (blast intro: registerVoters_failure)
  have fatal: "awaitVotePowerBlock env st0 = Some (Inr rewardEpoch, st4)
        \<and> registerVoters env skip (rewardEpoch + 1) accs st4 = (Inl e', st5) \<longrightarrow>
      defineNextSigningPolicy env skip skipSign g accs st0 = Some (Inl e', st5)"
    by (blast intro: defineNextSigningPolicy_registration_throws)
  show ?thesis by (intro conjI order stop fatal)
qed

text \<open>
  Claim C4 as stated fails. With participants A, B and C, none skipped, and an
  authority that rejects the registration of A: the trace holds the request of A and
  nothing else (no logged error, no request for B or C), and the driver ends with the
  exception.
\<close>

theorem registration_failure_fatal:
  "registerVoters demoEnv {} 2 demoAccounts ((0, 0), []) =
     (Inl (Error ''registerVoter reverted''),
      ((0, 0), [Sent (RegisterVoter ''0xIA'' ''0x20xIA/kA'' ''0xGA'')]))
   \<and> defineNextSigningPolicy demoEnv {} {} demoGovernance demoAccounts ((0, 0), []) =
     Some (Inl (Error ''registerVoter reverted''),
           ((0, 0), [Sent (RegisterVoter ''0xIA'' ''0x20xIA/kA'' ''0xGA'')]))"
  by (simp add: demo_register_fails defineNextSigningPolicy_def demo_prelude)

text \<open>
  Participants B, A, C with the registration of A rejected: B is registered, A is
  tried, C is not. With A in the skip set, B and C are registered.
\<close>

theorem registration_stops_at_failure_witness:
  "registerVoters demoEnv {} 2 ([mkAccount ''B''] @ mkAccount ''A'' # [mkAccount ''C'']) ((0, 0), []) =
     (Inl (Error ''registerVoter reverted''),
      ((0, 0), [Sent (RegisterVoter ''0xIB'' ''0x20xIB/kB'' ''0xGB''),
                Sent (RegisterVoter ''0xIA'' ''0x20xIA/kA'' ''0xGA'')]))
   \<and> (\<exists>txs. snd (snd (registerVoters demoEnv {''0xaa''} 2 demoAccounts ((0, 0), []))) = map Sent txs
         \<and> txs = [RegisterVoter ''0xIB'' ''0x20xIB/kB'' ''0xGB'',
                   RegisterVoter ''0xIC'' ''0x20xIC/kC'' ''0xGC''])
   \<and> defineNextSigningPolicy demoEnv {} {} demoGovernance demoAccounts ((0, 0), []) =
       Some (Inl (Error ''registerVoter reverted''),
             ((0, 0), [Sent (RegisterVoter ''0xIA'' ''0x20xIA/kA'' ''0xGA'')]))"
proof -
  let ?regA = "RegisterVoter ''0xIA'' ''0x20xIA/kA'' ''0xGA''"
  let ?regB = "RegisterVoter ''0xIB'' ''0x20xIB/kB'' ''0xGB''"
  let ?regC = "RegisterVoter ''0xIC'' ''0x20xIC/kC'' ''0xGC''"
  let ?err = "Error ''registerVoter reverted''"
  note stop = registration_stops_at_failure
    [where env = demoEnv and skip = "{}" and nxt = 2 and accs = demoAccounts
       and st = "((0, 0), [])" and pre = "[mkAccount ''B'']" and ?st1.0 = "((0, 0), [Sent ?regB])"
       and a = "mkAccount ''A''" and e = ?err and ?w2.0 = "(0, 0)" and post = "[mkAccount ''C'']"
       and ?st0.0 = "((0, 0), [])" and rewardEpoch = 1 and ?st4.0 = "((0, 0), [])"
       and e' = ?err and ?st5.0 = "((0, 0), [Sent ?regA])" and skipSign = "{}"
       and g = demoGovernance]
  note all = registration_stops_at_failure
    [where env = demoEnv and skip = "{''0xaa''}" and nxt = 2 and accs = demoAccounts
       and st = "((0, 0), [])" and pre = "[]" and ?st1.0 = "((0, 0), [])"
       and a = "mkAccount ''A''" and e = ?err and ?w2.0 = "(0, 0)" and post = "[]"
       and ?st0.0 = "((0, 0), [])" and rewardEpoch = 1 and ?st4.0 = "((0, 0), [])"
       and e' = ?err and ?st5.0 = "((0, 0), [])" and skipSign = "{}" and g = demoGovernance]
  have pre: "registerVoters demoEnv {} 2 [mkAccount ''B''] ((0, 0), []) = (Inr (), ((0, 0), [Sent ?regB]))"
    by (simp only: demo_register_B append_Nil)
  have rej: "transact demoEnv (registerVoterTx demoEnv 2 (mkAccount ''A''))
      (fst ((0::nat, 0::nat), [Sent ?regB])) = (Inl ?err, (0, 0))"
    by (simp only: demo_register_A_rejected fst_conv)
  from stop pre rej demo_skipped(1) [of "mkAccount ''A''"]
  have "registerVoters demoEnv {} 2 ([mkAccount ''B''] @ mkAccount ''A'' # [mkAccount ''C''])
      ((0, 0), []) =
     (Inl ?err, ((0, 0), snd ((0::nat, 0::nat), [Sent ?regB]) @
        [Sent (registerVoterTx demoEnv 2 (mkAccount ''A''))]))"
    by blast
  then have one: "registerVoters demoEnv {} 2 ([mkAccount ''B''] @ mkAccount ''A'' # [mkAccount ''C''])
      ((0, 0), []) = (Inl ?err, ((0, 0), [Sent ?regB, Sent ?regA]))"
    by (simp add: demo_registerVoterTx)
  have ok: "fst (registerVoters demoEnv {''0xaa''} 2 demoAccounts ((0, 0), [])) = Inr ()"
    by (simp add: demo_register_skipA)
  from all ok have "\<exists>txs. snd (snd (registerVoters demoEnv {''0xaa''} 2 demoAccounts ((0, 0), [])))
        = snd ((0::nat, 0::nat), []) @ map Sent txs
      \<and> txs = map (registerVoterTx demoEnv 2)
                (filter (\<lambda>a. \<not> skipped {''0xaa''} a) demoAccounts)"
    by blast
  then have two: "\<exists>txs. snd (snd (registerVoters demoEnv {''0xaa''} 2 demoAccounts ((0, 0), [])))
        = map Sent txs \<and> txs = [?regB, ?regC]"
    by (simp add: demoAccounts_def demo_skipped demo_registerVoterTx)
  have p: "awaitVotePowerBlock demoEnv ((0, 0), []) = Some (Inr 1, ((0, 0), []))"
    by (rule demo_prelude)
  have f: "registerVoters demoEnv {} (1 + 1) demoAccounts ((0, 0), []) =
      (Inl ?err, ((0, 0), [Sent ?regA]))"
    by (simp add: demo_register_fails)
  from stop p f have three: "defineNextSigningPolicy demoEnv {} {} demoGovernance demoAccounts
      ((0, 0), []) = Some (Inl ?err, ((0, 0), [Sent ?regA]))"
    by blast
  from one two three show ?thesis by (intro conjI)
qed

text \<open>
  Claim C3. The ratification loop takes the participants in the order given, leaving
  out the skip set: the sign-policy submissions it sends are a prefix of those of the
  eligible participants, in order (all of them when the loop runs off the end of the
  list). As soon as one submission is acknowledged with the threshold reached, the
  loop returns: whoever comes later in the list does not sign, and
  \<open>defineNextSigningPolicy\<close> ends normally.
\<close>

theorem ratification_early_exit:
  "(\<exists>txs. snd (snd (signNewSigningPolicies env skip gov nxt h accs st)) = snd st @ map Sent txs
      \<and> prefix txs (map (signTx env gov nxt h) (filter (\<lambda>a. \<not> skipped skip a) accs))
      \<and> (fst (signNewSigningPolicies env skip gov nxt h accs st) = Inr False \<longrightarrow>
           txs = map (signTx env gov nxt h) (filter (\<lambda>a. \<not> skipped skip a) accs)))
   \<and> (signNewSigningPolicies env skip gov nxt h pre st = (Inr False, st1) \<and> \<not> skipped skip a
        \<and> transact env (signTx env gov nxt h a) (fst st1) = (Inr (l # ls), w2)
        \<and> event l = ''SigningPolicySigned'' \<and> thresholdReached (args l) \<longrightarrow>
      signNewSigningPolicies env skip gov nxt h (pre @ a # post) st =
        (Inr True, (w2, snd st1 @ [Sent (signTx env gov nxt h a)])))
   \<and> (awaitVotePowerBlock env st0 = Some (Inr rewardEpoch, st4)
        \<and> registerVoters env skipReg (rewardEpoch + 1) accs st4 = (Inr (), st5)
        \<and> awaitEvent env rewardEpoch ''SigningPolicyInitialized'' (fst st5) = Some w6
        \<and> toSigningPolicyHash env (rewardEpoch + 1) w6 = (Inr h', w7)
        \<and> signNewSigningPolicies env skip (address g) (rewardEpoch + 1) h' accs (w7, snd st5)
             = (Inr True, st8) \<longrightarrow>
      defineNextSigningPolicy env skipReg skip g accs st0 = Some (Inr (), st8))"
proof -
  have order: "\<exists>txs. snd (snd (signNewSigningPolicies env skip gov nxt h accs st)) = snd st @ map Sent txs
      \<and> prefix txs (map (signTx env gov nxt h) (filter (\<lambda>a. \<not> skipped skip a) accs))
      \<and> (fst (signNewSigningPolicies env skip gov nxt h accs st) = Inr False \<longrightarrow>
           txs = map (signTx env gov nxt h) (filter (\<lambda>a. \<not> skipped skip a) accs))"
    by (rule signNewSigningPolicies_trace)
  have exit: "signNewSigningPolicies env skip gov nxt h pre st = (Inr False, st1) \<and> \<not> skipped skip a
        \<and> transact env (signTx env gov nxt h a) (fst st1) = (Inr (l # ls), w2)
        \<and> event l = ''SigningPolicySigned'' \<and> thresholdReached (args l) \<longrightarrow>
      signNewSigningPolicies env skip gov nxt h (pre @ a # post) st =
        (Inr True, (w2, snd st1 @ [Sent (signTx env gov nxt h a)]))"
    by (blast intro: sign_threshold_after)
  have driver: "awaitVotePowerBlock env st0 = Some (Inr rewardEpoch, st4)
        \<and> registerVoters env skipReg (rewardEpoch + 1) accs st4 = (Inr (), st5)
        \<and> awaitEvent env rewardEpoch ''SigningPolicyInitialized'' (fst st5) = Some w6
        \<and> toSigningPolicyHash env (rewardEpoch + 1) w6 = (Inr h', w7)
        \<and> signNewSigningPolicies env skip (address g) (rewardEpoch + 1) h' accs (w7, snd st5)
             = (Inr True, st8) \<longrightarrow>
      defineNextSigningPolicy env skipReg skip g accs st0 = Some (Inr (), st8)"
  proof (intro impI, elim conjE)
    assume a: "awaitVotePowerBlock env st0 = Some (Inr rewardEpoch, st4)"
      "registerVoters env skipReg (rewardEpoch + 1) accs st4 = (Inr (), st5)"
      "awaitEvent env rewardEpoch ''SigningPolicyInitialized'' (fst st5) = Some w6"
      "toSigningPolicyHash env (rewardEpoch + 1) w6 = (Inr h', w7)"
      and b: "signNewSigningPolicies env skip (address g) (rewardEpoch + 1) h' accs (w7, snd st5)
             = (Inr True, st8)"
    show "defineNextSigningPolicy env skipReg skip g accs st0 = Some (Inr (), st8)"
      by (simp add: defineNextSigningPolicy_ratification [OF a] b)
  qed
  show ?thesis by (intro conjI order exit driver)
qed

text \<open>
  Claim C5. When the response to a participant's \<open>signNewSigningPolicy\<close> carries no
  \<open>SigningPolicySigned\<close> event, the loop throws
  \<open>Expected signing policy to be signed\<close> right after that submission, the
  participants after it do not sign, and \<open>defineNextSigningPolicy\<close> ends with the
  exception.
\<close>

theorem ratification_unacknowledged_fatal:
  "(signNewSigningPolicies env skip gov nxt h pre st = (Inr False, st1) \<and> \<not> skipped skip a
        \<and> transact env (signTx env gov nxt h a) (fst st1) = (Inr logs, w2)
        \<and> (\<forall>l \<in> set logs. event l \<noteq> ''SigningPolicySigned'') \<longrightarrow>
      signNewSigningPolicies env skip gov nxt h (pre @ a # post) st =
        (Inl (Error ''Expected signing policy to be signed''),
         (w2, snd st1 @ [Sent (signTx env gov nxt h a)])))
   \<and> (awaitVotePowerBlock env st0 = Some (Inr rewardEpoch, st4)
        \<and> registerVoters env skipReg (rewardEpoch + 1) accs st4 = (Inr (), st5)
        \<and> awaitEvent env rewardEpoch ''SigningPolicyInitialized'' (fst st5) = Some w6
        \<and> toSigningPolicyHash env (rewardEpoch + 1) w6 = (Inr h', w7)
        \<and> signNewSigningPolicies env skip (address g) (rewardEpoch + 1) h' accs (w7, snd st5)
             = (Inl e, st8) \<longrightarrow>
      defineNextSigningPolicy env skipReg skip g accs st0 = Some (Inl e, st8))"
proof -
  have throws: "signNewSigningPolicies env skip gov nxt h pre st = (Inr False, st1) \<and> \<not> skipped skip a
        \<and> transact env (signTx env gov nxt h a) (fst st1) = (Inr logs, w2)
        \<and> (\<forall>l \<in> set logs. event l \<noteq> ''SigningPolicySigned'') \<longrightarrow>
      signNewSigningPolicies env skip gov nxt h (pre @ a # post) st =
        (Inl (Error ''Expected signing policy to be signed''),
         (w2, snd st1 @ [Sent (signTx env gov nxt h a)]))"
    by (blast intro: sign_unacknowledged_after)
  have driver: "awaitVotePowerBlock env st0 = Some (Inr rewardEpoch, st4)
        \<and> registerVoters env skipReg (rewardEpoch + 1) accs st4 = (Inr (), st5)
        \<and> awaitEvent env rewardEpoch ''SigningPolicyInitialized'' (fst st5) = Some w6
        \<and> toSigningPolicyHash env (rewardEpoch + 1) w6 = (Inr h', w7)
        \<and> signNewSigningPolicies env skip (address g) (rewardEpoch + 1) h' accs (w7, snd st5)
             = (Inl e, st8) \<longrightarrow>
      defineNextSigningPolicy env skipReg skip g accs st0 = Some (Inl e, st8)"
  proof (intro impI, elim conjE)
    assume a: "awaitVotePowerBlock env st0 = Some (Inr rewardEpoch, st4)"
      "registerVoters env skipReg (rewardEpoch + 1) accs st4 = (Inr (), st5)"
      "awaitEvent env rewardEpoch ''SigningPolicyInitialized'' (fst st5) = Some w6"
      "toSigningPolicyHash env (rewardEpoch + 1) w6 = (Inr h', w7)"
      and b: "signNewSigningPolicies env skip (address g) (rewardEpoch + 1) h' accs (w7, snd st5)
             = (Inl e, st8)"
    show "defineNextSigningPolicy env skipReg skip g accs st0 = Some (Inl e, st8)"
      by (simp add: defineNextSigningPolicy_ratification [OF a] b)
  qed
  show ?thesis by (intro conjI throws driver)
qed

lemma demo_sign_response:
  "sg \<noteq> ''0xhash/kD'' \<Longrightarrow>
     transact demoEnv (SignNewSigningPolicy ep hh sg sender) w =
       (Inr [\<lparr>event = ''SigningPolicySigned'',
               args = demoArgs\<lparr>thresholdReached := (2 \<le> Suc (snd w))\<rparr>\<rparr>],
        (fst w, Suc (snd w)))"
  "transact demoEnv (SignNewSigningPolicy ep hh ''0xhash/kD'' sender) w =
       (Inr [\<lparr>event = ''UptimeVoteSigned'', args = demoArgs\<rparr>], w)"
  by (simp_all add: demoEnv_sel demoTransact_def)

lemma demo_sign_A:
  "signNewSigningPolicies demoEnv {} g 2 ''0xhash'' [mkAccount ''A''] ((0, 0), tr) =
     (Inr False, ((0, 1), tr @ [Sent (SignNewSigningPolicy 2 ''0xhash'' ''0xhash/kA'' g)]))"
  by (simp add: demo_skipped demo_signTx demo_sign_response Let_def)

lemma demo_sign_all:
  "signNewSigningPolicies demoEnv {} g 2 ''0xhash'' demoAccounts ((0, 0), tr) =
     (Inr True, ((0, 2), tr @ [Sent (SignNewSigningPolicy 2 ''0xhash'' ''0xhash/kA'' g),
                               Sent (SignNewSigningPolicy 2 ''0xhash'' ''0xhash/kB'' g)]))"
  by (simp add: demoAccounts_def demo_skipped demo_signTx demo_sign_response Let_def
        numeral_2_eq_2)

lemma demo_sign_unacknowledged:
  "signNewSigningPolicies demoEnv {} g 2 ''0xhash'' demoAccountsD ((0, 0), tr) =
     (Inl (Error ''Expected signing policy to be signed''),
      ((0, 1), tr @ [Sent (SignNewSigningPolicy 2 ''0xhash'' ''0xhash/kA'' g),
                     Sent (SignNewSigningPolicy 2 ''0xhash'' ''0xhash/kD'' g)]))"
  by (simp add: demoAccountsD_def demo_skipped demo_signTx demo_sign_response Let_def)

lemma demo_register_skipA_D:
  "registerVoters demoEnv {''0xaa''} 2 demoAccountsD (w, tr) =
     (Inr (), (w, tr @ [Sent (RegisterVoter ''0xID'' ''0x20xID/kD'' ''0xGD''),
                        Sent (RegisterVoter ''0xIC'' ''0x20xIC/kC'' ''0xGC'')]))"
  by (simp add: demoAccountsD_def demo_skipped registerVoter_def Let_def demo_registerVoterTx
        demoEnv_sel demoTransact_def)

text \<open>
  Participants A, B, C and an authority that reports the threshold reached at the second
  signature: A and B sign, C does not.
\<close>

theorem ratification_early_exit_witness:
  "signNewSigningPolicies demoEnv {} ''0xGov'' 2 ''0xhash''
       ([mkAccount ''A''] @ mkAccount ''B'' # [mkAccount ''C'']) ((0, 0), []) =
     (Inr True, ((0, 2), [Sent (SignNewSigningPolicy 2 ''0xhash'' ''0xhash/kA'' ''0xGov''),
                          Sent (SignNewSigningPolicy 2 ''0xhash'' ''0xhash/kB'' ''0xGov'')]))
   \<and> (\<exists>txs. snd (snd (signNewSigningPolicies demoEnv {} ''0xGov'' 2 ''0xhash'' demoAccounts
                          ((0, 0), []))) = map Sent txs
         \<and> prefix txs [SignNewSigningPolicy 2 ''0xhash'' ''0xhash/kA'' ''0xGov'',
                        SignNewSigningPolicy 2 ''0xhash'' ''0xhash/kB'' ''0xGov'',
                        SignNewSigningPolicy 2 ''0xhash'' ''0xhash/kC'' ''0xGov''])
   \<and> defineNextSigningPolicy demoEnv {''0xaa''} {} demoGovernance demoAccounts ((0, 0), []) =
       Some (Inr (), ((0, 2), [Sent (RegisterVoter ''0xIB'' ''0x20xIB/kB'' ''0xGB''),
                               Sent (RegisterVoter ''0xIC'' ''0x20xIC/kC'' ''0xGC''),
                               Sent (SignNewSigningPolicy 2 ''0xhash'' ''0xhash/kA'' ''0xGov''),
                               Sent (SignNewSigningPolicy 2 ''0xhash'' ''0xhash/kB'' ''0xGov'')]))"
proof -
  let ?signA = "SignNewSigningPolicy 2 ''0xhash'' ''0xhash/kA'' ''0xGov''"
  let ?signB = "SignNewSigningPolicy 2 ''0xhash'' ''0xhash/kB'' ''0xGov''"
  let ?signC = "SignNewSigningPolicy 2 ''0xhash'' ''0xhash/kC'' ''0xGov''"
  let ?regB = "RegisterVoter ''0xIB'' ''0x20xIB/kB'' ''0xGB''"
  let ?regC = "RegisterVoter ''0xIC'' ''0x20xIC/kC'' ''0xGC''"
  let ?ack = "\<lparr>event = ''SigningPolicySigned'', args = demoArgs\<lparr>thresholdReached := True\<rparr>\<rparr>"
  note main = ratification_early_exit
    [where env = demoEnv and skip = "{}" and gov = "''0xGov''" and nxt = 2 and h = "''0xhash''"
       and accs = demoAccounts and st = "((0, 0), [])" and pre = "[mkAccount ''A'']"
       and ?st1.0 = "((0, 1), [Sent ?signA])" and a = "mkAccount ''B''" and l = ?ack
       and ls = "[]" and ?w2.0 = "(0, 2)" and post = "[mkAccount ''C'']"
       and ?st0.0 = "((0, 0), [])" and rewardEpoch = 1 and ?st4.0 = "((0, 0), [])"
       and skipReg = "{''0xaa''}" and ?st5.0 = "((0, 0), [Sent ?regB, Sent ?regC])"
       and ?w6.0 = "(0, 0)" and h' = "''0xhash''" and ?w7.0 = "(0, 0)" and g = demoGovernance
       and ?st8.0 = "((0, 2), [Sent ?regB, Sent ?regC, Sent ?signA, Sent ?signB])"]
  have pre: "signNewSigningPolicies demoEnv {} ''0xGov'' 2 ''0xhash'' [mkAccount ''A''] ((0, 0), [])
      = (Inr False, ((0, 1), [Sent ?signA]))"
    by (simp only: demo_sign_A append_Nil)
  have resp: "transact demoEnv (signTx demoEnv ''0xGov'' 2 ''0xhash'' (mkAccount ''B''))
      (fst ((0::nat, 1::nat), [Sent ?signA])) = (Inr (?ack # []), (0, 2))"
    by (simp add: demo_signTx demo_sign_response)
  have ack: "event ?ack = ''SigningPolicySigned''" "thresholdReached (args ?ack)"
    by simp_all
  from main pre resp ack demo_skipped(1) [of "mkAccount ''B''"]
  have "signNewSigningPolicies demoEnv {} ''0xGov'' 2 ''0xhash''
       ([mkAccount ''A''] @ mkAccount ''B'' # [mkAccount ''C'']) ((0, 0), []) =
     (Inr True, ((0, 2), snd ((0::nat, 1::nat), [Sent ?signA]) @
        [Sent (signTx demoEnv ''0xGov'' 2 ''0xhash'' (mkAccount ''B''))]))"
    by blast
  then have one: "signNewSigningPolicies demoEnv {} ''0xGov'' 2 ''0xhash''
       ([mkAccount ''A''] @ mkAccount ''B'' # [mkAccount ''C'']) ((0, 0), []) =
     (Inr True, ((0, 2), [Sent ?signA, Sent ?signB]))"
    by (simp add: demo_signTx)
  from main have "\<exists>txs. snd (snd (signNewSigningPolicies demoEnv {} ''0xGov'' 2 ''0xhash'' demoAccounts
        ((0, 0), []))) = snd ((0::nat, 0::nat), []) @ map Sent txs
      \<and> prefix txs (map (signTx demoEnv ''0xGov'' 2 ''0xhash'')
           (filter (\<lambda>a. \<not> skipped {} a) demoAccounts))"
    by blast
  then have two: "\<exists>txs. snd (snd (signNewSigningPolicies demoEnv {} ''0xGov'' 2 ''0xhash'' demoAccounts
        ((0, 0), []))) = map Sent txs \<and> prefix txs [?signA, ?signB, ?signC]"
    by (simp add: demoAccounts_def demo_skipped demo_signTx)
  have p: "awaitVotePowerBlock demoEnv ((0, 0), []) = Some (Inr 1, ((0, 0), []))"
    by (rule demo_prelude)
  have r: "registerVoters demoEnv {''0xaa''} (1 + 1) demoAccounts ((0, 0), []) =
      (Inr (), ((0, 0), [Sent ?regB, Sent ?regC]))"
    by (simp add: demo_register_skipA)
  have w: "awaitEvent demoEnv 1 ''SigningPolicyInitialized''
      (fst ((0::nat, 0::nat), [Sent ?regB, Sent ?regC])) = Some (0, 0)"
    by (simp add: demo_awaitEvent)
  have hs: "toSigningPolicyHash demoEnv (1 + 1) (0, 0) = (Inr ''0xhash'', (0, 0))"
    by (simp add: demoEnv_sel)
  have sg: "signNewSigningPolicies demoEnv {} (address demoGovernance) (1 + 1) ''0xhash'' demoAccounts
      ((0, 0), snd ((0::nat, 0::nat), [Sent ?regB, Sent ?regC])) =
      (Inr True, ((0, 2), [Sent ?regB, Sent ?regC, Sent ?signA, Sent ?signB]))"
    by (simp add: demo_sign_all demoGovernance_def)
  from main p r w hs sg have three: "defineNextSigningPolicy demoEnv {''0xaa''} {} demoGovernance
      demoAccounts ((0, 0), []) =
       Some (Inr (), ((0, 2), [Sent ?regB, Sent ?regC, Sent ?signA, Sent ?signB]))"
    by blast
  from one two three show ?thesis by (intro conjI)
qed

text \<open>
  Participants A, D, C, where the submission of D is answered with another event: A and
  D sign, the driver throws, C does not sign.
\<close>

theorem ratification_unacknowledged_fatal_witness:
  "signNewSigningPolicies demoEnv {} ''0xGov'' 2 ''0xhash''
       ([mkAccount ''A''] @ mkAccount ''D'' # [mkAccount ''C'']) ((0, 0), []) =
     (Inl (Error ''Expected signing policy to be signed''),
      ((0, 1), [Sent (SignNewSigningPolicy 2 ''0xhash'' ''0xhash/kA'' ''0xGov''),
                Sent (SignNewSigningPolicy 2 ''0xhash'' ''0xhash/kD'' ''0xGov'')]))
   \<and> defineNextSigningPolicy demoEnv {''0xaa''} {} demoGovernance demoAccountsD ((0, 0), []) =
       Some (Inl (Error ''Expected signing policy to be signed''),
             ((0, 1), [Sent (RegisterVoter ''0xID'' ''0x20xID/kD'' ''0xGD''),
                       Sent (RegisterVoter ''0xIC'' ''0x20xIC/kC'' ''0xGC''),
                       Sent (SignNewSigningPolicy 2 ''0xhash'' ''0xhash/kA'' ''0xGov''),
                       Sent (SignNewSigningPolicy 2 ''0xhash'' ''0xhash/kD'' ''0xGov'')]))"
proof -
  let ?signA = "SignNewSigningPolicy 2 ''0xhash'' ''0xhash/kA'' ''0xGov''"
  let ?signD = "SignNewSigningPolicy 2 ''0xhash'' ''0xhash/kD'' ''0xGov''"
  let ?regD = "RegisterVoter ''0xID'' ''0x20xID/kD'' ''0xGD''"
  let ?regC = "RegisterVoter ''0xIC'' ''0x20xIC/kC'' ''0xGC''"
  let ?other = "\<lparr>event = ''UptimeVoteSigned'', args = demoArgs\<rparr>"
  let ?err = "Error ''Expected signing policy to be signed''"
  let ?accs = "demoAccountsD"
  note main = ratification_unacknowledged_fatal
    [where env = demoEnv and skip = "{}" and gov = "''0xGov''" and nxt = 2 and h = "''0xhash''"
       and accs = ?accs and st = "((0, 0), [])" and pre = "[mkAccount ''A'']"
       and ?st1.0 = "((0, 1), [Sent ?signA])" and a = "mkAccount ''D''" and logs = "[?other]"
       and ?w2.0 = "(0, 1)" and post = "[mkAccount ''C'']"
       and ?st0.0 = "((0, 0), [])" and rewardEpoch = 1 and ?st4.0 = "((0, 0), [])"
       and skipReg = "{''0xaa''}" and ?st5.0 = "((0, 0), [Sent ?regD, Sent ?regC])"
       and ?w6.0 = "(0, 0)" and h' = "''0xhash''" and ?w7.0 = "(0, 0)" and g = demoGovernance
       and e = ?err
       and ?st8.0 = "((0, 1), [Sent ?regD, Sent ?regC, Sent ?signA, Sent ?signD])"]
  have pre: "signNewSigningPolicies demoEnv {} ''0xGov'' 2 ''0xhash'' [mkAccount ''A''] ((0, 0), [])
      = (Inr False, ((0, 1), [Sent ?signA]))"
    by (simp only: demo_sign_A append_Nil)
  have resp: "transact demoEnv (signTx demoEnv ''0xGov'' 2 ''0xhash'' (mkAccount ''D''))
      (fst ((0::nat, 1::nat), [Sent ?signA])) = (Inr [?other], (0, 1))"
    by (simp add: demo_signTx demo_sign_response)
  have noack: "\<forall>l \<in> set [?other]. event l \<noteq> ''SigningPolicySigned''"
    by simp
  from main pre resp noack demo_skipped(1) [of "mkAccount ''D''"]
  have "signNewSigningPolicies demoEnv {} ''0xGov'' 2 ''0xhash''
       ([mkAccount ''A''] @ mkAccount ''D'' # [mkAccount ''C'']) ((0, 0), []) =
     (Inl ?err, ((0, 1), snd ((0::nat, 1::nat), [Sent ?signA]) @
        [Sent (signTx demoEnv ''0xGov'' 2 ''0xhash'' (mkAccount ''D''))]))"
    by blast
  then have one: "signNewSigningPolicies demoEnv {} ''0xGov'' 2 ''0xhash''
       ([mkAccount ''A''] @ mkAccount ''D'' # [mkAccount ''C'']) ((0, 0), []) =
     (Inl ?err, ((0, 1), [Sent ?signA, Sent ?signD]))"
    by (simp add: demo_signTx)
  have p: "awaitVotePowerBlock demoEnv ((0, 0), []) = Some (Inr 1, ((0, 0), []))"
    by (rule demo_prelude)
  have r: "registerVoters demoEnv {''0xaa''} (1 + 1) ?accs ((0, 0), []) =
      (Inr (), ((0, 0), [Sent ?regD, Sent ?regC]))"
    by (simp add: demo_register_skipA_D)
  have w: "awaitEvent demoEnv 1 ''SigningPolicyInitialized''
      (fst ((0::nat, 0::nat), [Sent ?regD, Sent ?regC])) = Some (0, 0)"
    by (simp add: demo_awaitEvent)
  have hs: "toSigningPolicyHash demoEnv (1 + 1) (0, 0) = (Inr ''0xhash'', (0, 0))"
    by (simp add: demoEnv_sel)
  have sg: "signNewSigningPolicies demoEnv {} (address demoGovernance) (1 + 1) ''0xhash'' ?accs
      ((0, 0), snd ((0::nat, 0::nat), [Sent ?regD, Sent ?regC])) =
      (Inl ?err, ((0, 1), [Sent ?regD, Sent ?regC, Sent ?signA, Sent ?signD]))"
    by (simp add: demo_sign_unacknowledged demoGovernance_def)
  from main p r w hs sg have two: "defineNextSigningPolicy demoEnv {''0xaa''} {} demoGovernance
      ?accs ((0, 0), []) =
       Some (Inl ?err, ((0, 1), [Sent ?regD, Sent ?regC, Sent ?signA, Sent ?signD]))"
    by blast
  from one two show ?thesis by (intro conjI)
qed

section \<open>Epoch arithmetic\<close>

lemma systemSettings_sel:
  "firstVotingRoundStartTs (systemSettings now) = now - 20000"
  "votingEpochDurationSeconds (systemSettings now) = 20"
  "firstRewardEpochStartVotingRoundId (systemSettings now) = 1000"
  "rewardEpochDurationInVotingEpochs (systemSettings now) = 5"
  by (simp_all add: systemSettings_def FIRST_REWARD_EPOCH_START_VOTING_ROUND_ID_def
        VOTING_EPOCH_DURATION_SEC_def REWARD_EPOCH_DURATION_IN_VOTING_EPOCHS_def)

lemma votingRoundAt_floor:
  assumes "0 < votingEpochDurationSeconds s"
  shows "votingRoundAt s t * votingEpochDurationSeconds s \<le> t - firstVotingRoundStartTs s
     \<and> t - firstVotingRoundStartTs s < (votingRoundAt s t + 1) * votingEpochDurationSeconds s"
proof -
  define d where "d = votingEpochDurationSeconds s"
  define x where "x = t - firstVotingRoundStartTs s"
  define q where "q = x div d"
  define m where "m = x mod d"
  have "0 < d" using assms by (simp add: d_def)
  then have m: "0 \<le> m" "m < d" by (simp_all add: m_def)
  have "q * d + m = x" by (simp add: q_def m_def)
  with m have "q * d \<le> x \<and> x < (q + 1) * d" by (simp add: algebra_simps)
  then show ?thesis by (simp add: votingRoundAt_def q_def x_def d_def)
qed

lemma floor_unique_int:
  fixes d x r :: int
  assumes "0 < d" "r * d \<le> x" "x < (r + 1) * d"
  shows "x div d = r"
proof (rule int_div_pos_eq [where r = "x - r * d"])
  show "x = d * r + (x - r * d)" by (simp add: algebra_simps)
  show "0 \<le> x - r * d" using assms(2) by simp
  show "x - r * d < d" using assms(3) by (simp add: algebra_simps)
qed

text \<open>
  Claim C10. For a positive round duration the round id at timestamp \<open>t\<close> is the floor
  of \<open>(t - firstRoundStart) / roundDurationSec\<close>: it is the one integer \<open>r\<close> with
  \<open>r * d \<le> t - firstRoundStart < (r + 1) * d\<close>. In the scenario (rounds of 20 s, reward
  epochs of 100 s, round 0 and reward epoch 0 starting at the genesis timestamp) the
  ids at genesis + 45 are round 2 and reward epoch 0, and at genesis + 105 round 5 and
  reward epoch 1. The same arithmetic on \<open>systemSettings(now)\<close>, whose first reward
  epoch starts at round 1000 (at \<open>now\<close>), gives round 1002 and reward epoch 0 at
  now + 45, and round 1005 and reward epoch 1 at now + 105.
\<close>

theorem epoch_clock_scenario:
  "(0 < votingEpochDurationSeconds s \<longrightarrow>
      votingRoundAt s t * votingEpochDurationSeconds s \<le> t - firstVotingRoundStartTs s
      \<and> t - firstVotingRoundStartTs s < (votingRoundAt s t + 1) * votingEpochDurationSeconds s
      \<and> (\<forall>r. r * votingEpochDurationSeconds s \<le> t - firstVotingRoundStartTs s
             \<and> t - firstVotingRoundStartTs s < (r + 1) * votingEpochDurationSeconds s
             \<longrightarrow> r = votingRoundAt s t))
   \<and> (votingEpochDurationSeconds s = 20
      \<and> rewardEpochDurationInVotingEpochs s * votingEpochDurationSeconds s = 100
      \<and> firstVotingRoundStartTs s = genesis
      \<and> firstRewardEpochStartVotingRoundId s = 0 \<longrightarrow>
      votingRoundAt s (genesis + 45) = 2 \<and> rewardEpochAt s (genesis + 45) = 0
      \<and> votingRoundAt s (genesis + 105) = 5 \<and> rewardEpochAt s (genesis + 105) = 1)
   \<and> votingRoundAt (systemSettings now) (now + 45) = 1002
   \<and> rewardEpochAt (systemSettings now) (now + 45) = 0
   \<and> votingRoundAt (systemSettings now) (now + 105) = 1005
   \<and> rewardEpochAt (systemSettings now) (now + 105) = 1"
proof -
  have fl: "0 < votingEpochDurationSeconds s \<longrightarrow>
      votingRoundAt s t * votingEpochDurationSeconds s \<le> t - firstVotingRoundStartTs s
      \<and> t - firstVotingRoundStartTs s < (votingRoundAt s t + 1) * votingEpochDurationSeconds s
      \<and> (\<forall>r. r * votingEpochDurationSeconds s \<le> t - firstVotingRoundStartTs s
             \<and> t - firstVotingRoundStartTs s < (r + 1) * votingEpochDurationSeconds s
             \<longrightarrow> r = votingRoundAt s t)"
  proof (intro impI conjI allI)
    assume d: "0 < votingEpochDurationSeconds s"
    from votingRoundAt_floor [OF d, of t]
    show "votingRoundAt s t * votingEpochDurationSeconds s \<le> t - firstVotingRoundStartTs s"
      and "t - firstVotingRoundStartTs s < (votingRoundAt s t + 1) * votingEpochDurationSeconds s"
      by simp_all
    fix r
    assume "r * votingEpochDurationSeconds s \<le> t - firstVotingRoundStartTs s
             \<and> t - firstVotingRoundStartTs s < (r + 1) * votingEpochDurationSeconds s"
    then have "(t - firstVotingRoundStartTs s) div votingEpochDurationSeconds s = r"
      using d by (intro floor_unique_int) simp_all
    then show "r = votingRoundAt s t"
      by (simp add: votingRoundAt_def)
  qed
  have sc: "votingEpochDurationSeconds s = 20
      \<and> rewardEpochDurationInVotingEpochs s * votingEpochDurationSeconds s = 100
      \<and> firstVotingRoundStartTs s = genesis
      \<and> firstRewardEpochStartVotingRoundId s = 0 \<longrightarrow>
      votingRoundAt s (genesis + 45) = 2 \<and> rewardEpochAt s (genesis + 45) = 0
      \<and> votingRoundAt s (genesis + 105) = 5 \<and> rewardEpochAt s (genesis + 105) = 1"
  proof (intro impI, elim conjE)
    assume a: "votingEpochDurationSeconds s = 20"
      "rewardEpochDurationInVotingEpochs s * votingEpochDurationSeconds s = 100"
      "firstVotingRoundStartTs s = genesis" "firstRewardEpochStartVotingRoundId s = 0"
    from a(1,2) have five: "rewardEpochDurationInVotingEpochs s = 5" by simp
    show "votingRoundAt s (genesis + 45) = 2 \<and> rewardEpochAt s (genesis + 45) = 0
      \<and> votingRoundAt s (genesis + 105) = 5 \<and> rewardEpochAt s (genesis + 105) = 1"
      by (simp add: votingRoundAt_def rewardEpochAt_def a(1,3,4) five)
  qed
  have code: "votingRoundAt (systemSettings now) (now + 45) = 1002"
    "rewardEpochAt (systemSettings now) (now + 45) = 0"
    "votingRoundAt (systemSettings now) (now + 105) = 1005"
    "rewardEpochAt (systemSettings now) (now + 105) = 1"
    by (simp_all add: votingRoundAt_def rewardEpochAt_def systemSettings_sel)
  show ?thesis by (intro conjI fl sc code)
qed

text \<open>The scenario at the genesis timestamp 1700000000.\<close>

theorem epoch_clock_scenario_witness:
  "votingRoundAt (scenarioSettings 1700000000) 1700000045 * 20 \<le> 45
   \<and> 45 < (votingRoundAt (scenarioSettings 1700000000) 1700000045 + 1) * 20
   \<and> votingRoundAt (scenarioSettings 1700000000) (1700000000 + 45) = 2
   \<and> rewardEpochAt (scenarioSettings 1700000000) (1700000000 + 45) = 0
   \<and> votingRoundAt (scenarioSettings 1700000000) (1700000000 + 105) = 5
   \<and> rewardEpochAt (scenarioSettings 1700000000) (1700000000 + 105) = 1"
proof -
  have sel: "votingEpochDurationSeconds (scenarioSettings 1700000000) = 20"
    "rewardEpochDurationInVotingEpochs (scenarioSettings 1700000000)
       * votingEpochDurationSeconds (scenarioSettings 1700000000) = 100"
    "firstVotingRoundStartTs (scenarioSettings 1700000000) = 1700000000"
    "firstRewardEpochStartVotingRoundId (scenarioSettings 1700000000) = 0"
    by (simp_all add: scenarioSettings_def systemSettings_sel)
  have pos: "0 < votingEpochDurationSeconds (scenarioSettings 1700000000)"
    by (simp add: sel)
  note main = epoch_clock_scenario
    [where s = "scenarioSettings 1700000000" and t = 1700000045 and genesis = 1700000000]
  from main pos have "votingRoundAt (scenarioSettings 1700000000) 1700000045
        * votingEpochDurationSeconds (scenarioSettings 1700000000)
        \<le> 1700000045 - firstVotingRoundStartTs (scenarioSettings 1700000000)
      \<and> 1700000045 - firstVotingRoundStartTs (scenarioSettings 1700000000)
        < (votingRoundAt (scenarioSettings 1700000000) 1700000045 + 1)
            * votingEpochDurationSeconds (scenarioSettings 1700000000)"
    by blast
  then have one: "votingRoundAt (scenarioSettings 1700000000) 1700000045 * 20 \<le> 45
      \<and> 45 < (votingRoundAt (scenarioSettings 1700000000) 1700000045 + 1) * 20"
    by (simp add: sel)
  from main sel have two: "votingRoundAt (scenarioSettings 1700000000) (1700000000 + 45) = 2
   \<and> rewardEpochAt (scenarioSettings 1700000000) (1700000000 + 45) = 0
   \<and> votingRoundAt (scenarioSettings 1700000000) (1700000000 + 105) = 5
   \<and> rewardEpochAt (scenarioSettings 1700000000) (1700000000 + 105) = 1"
    by blast
  from one two show ?thesis by blast
qed

end
